theory Spec2Isabelle
  imports Complex_Main "HOL-Library.Sublist"
begin

text \<open>
  A model of \<^verbatim>\<open>server.js\<close>, the M-Pesa payment server: the credential functions
  (\<^verbatim>\<open>generateAccessToken\<close>, \<^verbatim>\<open>generateTimestamp\<close>, \<^verbatim>\<open>generatePassword\<close>) and the
  handlers of \<^verbatim>\<open>/api/mpesa/stkpush\<close>, \<^verbatim>\<open>/api/mpesa/callback\<close> and
  \<^verbatim>\<open>/api/payment/status/:checkoutRequestID\<close>. A handler is a function from the request
  and the world (clock, gateway, requests sent, console) to the response and the new
  world; a \<^verbatim>\<open>throw\<close> is the left summand of a sum and each \<^verbatim>\<open>try\<close>/\<^verbatim>\<open>catch\<close> is a
  case distinction on it.
\<close>

section \<open>JavaScript values\<close>

text \<open>
  The handlers of \<^verbatim>\<open>server.js\<close> work on parsed request bodies, so the model has a type of
  JavaScript values. A number is an IEEE double: the finite ones are rationals (the two
  zeros are identified, both are falsy and both are \<^verbatim>\<open>=== 0\<close>), and the three special
  values are kept apart. A string is the list of its bytes in UTF-8, which is what
  \<^verbatim>\<open>Buffer.from\<close> reads. An object is the list of its own members; the first binding of a
  name is the member's value.
\<close>

datatype jsnum = Finite rat | PosInf | NegInf | NaN

datatype js =
    Undefined
  | Null
  | Bool bool
  | Num jsnum
  | Str string
  | Arr "js list"
  | Obj "(string \<times> js) list"

text \<open>What \<^verbatim>\<open>!v\<close> negates.\<close>

fun truthy :: "js \<Rightarrow> bool" where
  "truthy Undefined = False"
| "truthy Null = False"
| "truthy (Bool b) = b"
| "truthy (Num (Finite r)) = (r \<noteq> 0)"
| "truthy (Num NaN) = False"
| "truthy (Num PosInf) = True"
| "truthy (Num NegInf) = True"
| "truthy (Str s) = (s \<noteq> [])"
| "truthy (Arr xs) = True"
| "truthy (Obj kvs) = True"

text \<open>
  What the code throws: a \<^verbatim>\<open>TypeError\<close> of the engine with its message (as V8 words
  it), or the error of axios, which carries the body of the upstream response when there
  was a response, and a message.
\<close>

datatype exn =
    TypeError string
  | AxiosError "js option" string

definition quoted :: "string \<Rightarrow> string" where
  "quoted n = [CHR 0x27] @ n @ [CHR 0x27]"

text \<open>
  Member access \<^verbatim>\<open>v.name\<close>, for the member names this program reads (none of them is
  defined on a built-in prototype): it throws on \<^verbatim>\<open>undefined\<close> and \<^verbatim>\<open>null\<close>, reads an
  object's member, and is \<^verbatim>\<open>undefined\<close> on every other value.
\<close>

fun member :: "js \<Rightarrow> string \<Rightarrow> exn + js" where
  "member Undefined n =
     Inl (TypeError (''Cannot read properties of undefined (reading '' @ quoted n @ '')''))"
| "member Null n =
     Inl (TypeError (''Cannot read properties of null (reading '' @ quoted n @ '')''))"
| "member (Obj kvs) n = Inr (case map_of kvs n of None \<Rightarrow> Undefined | Some v \<Rightarrow> v)"
| "member v n = Inr Undefined"

text \<open>Optional chaining \<^verbatim>\<open>v?.name\<close>.\<close>

fun opt_member :: "js \<Rightarrow> string \<Rightarrow> js" where
  "opt_member (Obj kvs) n = (case map_of kvs n of None \<Rightarrow> Undefined | Some v \<Rightarrow> v)"
| "opt_member v n = Undefined"

text \<open>\<^verbatim>\<open>a || b\<close>.\<close>

definition or_else :: "js \<Rightarrow> js \<Rightarrow> js" where
  "or_else a b = (if truthy a then a else b)"

text \<open>\<^verbatim>\<open>error.response?.data || error.message\<close>, as the three catch blocks compute it.\<close>

fun error_details :: "exn \<Rightarrow> js" where
  "error_details (TypeError m) = Str m"
| "error_details (AxiosError None m) = Str m"
| "error_details (AxiosError (Some d) m) = or_else d (Str m)"

section \<open>Strings\<close>

text \<open>\<^verbatim>\<open>s.startsWith(p)\<close>, \<^verbatim>\<open>s.slice(1)\<close> and \<^verbatim>\<open>s.slice(-2)\<close>.\<close>

definition startsWith :: "string \<Rightarrow> string \<Rightarrow> bool" where
  "startsWith s p = prefix p s"

definition slice1 :: "string \<Rightarrow> string" where
  "slice1 s = drop 1 s"

definition slice_last2 :: "string \<Rightarrow> string" where
  "slice_last2 s = drop (length s - 2) s"

text \<open>The decimal digits of a natural number, as string concatenation renders it.\<close>

definition digit :: "nat \<Rightarrow> char" where
  "digit d = ''0123456789'' ! d"

fun show_nat :: "nat \<Rightarrow> string" where
  "show_nat n = (if n < 10 then [digit n] else show_nat (n div 10) @ [digit (n mod 10)])"

declare show_nat.simps [simp del]

text \<open>A template literal renders an unset configuration value as \<^verbatim>\<open>undefined\<close>.\<close>

fun template :: "string option \<Rightarrow> string" where
  "template None = ''undefined''"
| "template (Some s) = s"

fun js_of :: "string option \<Rightarrow> js" where
  "js_of None = Undefined"
| "js_of (Some s) = Str s"

section \<open>Base64\<close>

text \<open>
  \<^verbatim>\<open>Buffer.from(s).toString('base64')\<close>: the standard alphabet, three bytes to four
  characters, the last group padded with \<^verbatim>\<open>=\<close>.
\<close>

definition b64chars :: string where
  "b64chars = ''ABCDEFGHIJKLMNOPQRSTUVWXYZabcdefghijklmnopqrstuvwxyz0123456789+/''"

definition b64 :: "nat \<Rightarrow> char" where
  "b64 i = b64chars ! i"

fun base64 :: "string \<Rightarrow> string" where
  "base64 [] = []"
| "base64 [a] =
     [b64 (of_char a div 4), b64 ((of_char a mod 4) * 16), CHR ''='', CHR ''='']"
| "base64 [a, b] =
     [b64 (of_char a div 4), b64 ((of_char a mod 4) * 16 + of_char b div 16),
      b64 ((of_char b mod 16) * 4), CHR ''='']"
| "base64 (a # b # c # rest) =
     [b64 (of_char a div 4), b64 ((of_char a mod 4) * 16 + of_char b div 16),
      b64 ((of_char b mod 16) * 4 + of_char c div 64), b64 (of_char c mod 64)]
     @ base64 rest"

section \<open>Phone numbers\<close>

text \<open>
  The conditional expression of the push handler on a string:
  \<^verbatim>\<open>p.startsWith('0') ? `254${p.slice(1)}` : p.startsWith('+254') ? p.slice(1) : p\<close>.
\<close>

definition formattedPhone_of :: "string \<Rightarrow> string" where
  "formattedPhone_of phoneNumber =
     (if startsWith phoneNumber ''0'' then ''254'' @ slice1 phoneNumber
      else if startsWith phoneNumber ''+254'' then slice1 phoneNumber
      else phoneNumber)"

text \<open>
  The same expression on the value the body carries: only a string has a
  \<^verbatim>\<open>startsWith\<close> method, on every other (truthy) value the call throws.
\<close>

fun formattedPhone_js :: "js \<Rightarrow> exn + js" where
  "formattedPhone_js (Str s) = Inr (Str (formattedPhone_of s))"
| "formattedPhone_js v = Inl (TypeError ''phoneNumber.startsWith is not a function'')"

section \<open>Configuration, clock, gateway\<close>

text \<open>
  \<^verbatim>\<open>MPESA_CONFIG\<close>: each field is read from the process environment and is a string or
  unset.
\<close>

record config =
  consumerKey :: "string option"
  consumerSecret :: "string option"
  businessShortCode :: "string option"
  passKey :: "string option"
  callbackURL :: "string option"
  environment :: "string option"

text \<open>The fields of a \<^verbatim>\<open>Date\<close> in local time, as its getters return them (months from 0).\<close>

record date =
  getFullYear :: nat
  getMonth :: nat
  getDate :: nat
  getHours :: nat
  getMinutes :: nat
  getSeconds :: nat

text \<open>A request that axios sends. The token of a bearer header is kept as the value it is.\<close>

datatype http_method = GET | POST

datatype authorization = Basic string | Bearer js

record request =
  http_method :: http_method
  url :: string
  payload :: "js option"
  authorization :: authorization

text \<open>A line of the console: the label and the value printed after it.\<close>

datatype console_entry =
    Log string js
  | Error string js
  | ErrorExn string exn

text \<open>
  Everything outside the handlers. The clock gives the date of the \<open>n\<close>-th
  \<^verbatim>\<open>new Date()\<close>. The gateway answers the \<open>n\<close>-th request with the data of its
  response, or axios throws. The requests sent and the console are recorded.
\<close>

record world =
  clock :: "nat \<Rightarrow> date"
  ticks :: nat
  gateway :: "nat \<Rightarrow> request \<Rightarrow> exn + js"
  calls :: "request list"
  console :: "console_entry list"

definition new_Date :: "world \<Rightarrow> date \<times> world" where
  "new_Date w = (clock w (ticks w), w\<lparr>ticks := Suc (ticks w)\<rparr>)"

definition axios :: "request \<Rightarrow> world \<Rightarrow> (exn + js) \<times> world" where
  "axios rq w = (gateway w (length (calls w)) rq, w\<lparr>calls := calls w @ [rq]\<rparr>)"

definition console_log :: "console_entry \<Rightarrow> world \<Rightarrow> world" where
  "console_log e w = w\<lparr>console := console w @ [e]\<rparr>"

text \<open>What a handler sends back.\<close>

datatype response_body = Json js | Text string

record response =
  status :: nat
  body :: response_body

section \<open>Credentials\<close>

definition generateAccessToken :: "config \<Rightarrow> world \<Rightarrow> (exn + js) \<times> world" where
  "generateAccessToken cfg w =
     (let auth = base64 (template (consumerKey cfg) @ '':'' @ template (consumerSecret cfg));
          (response, w1) = axios
            \<lparr>http_method = GET,
             url = (if environment cfg = Some ''production''
                    then ''https://api.safaricom.co.ke/oauth/v1/generate?grant_type=client_credentials''
                    else ''https://sandbox.safaricom.co.ke/oauth/v1/generate?grant_type=client_credentials''),
             payload = None,
             authorization = Basic auth\<rparr> w
      in case (case response of Inl error \<Rightarrow> Inl error
                 | Inr data \<Rightarrow> member data ''access_token'') of
           Inr access_token \<Rightarrow> (Inr access_token, w1)
         | Inl error \<Rightarrow>
             (Inl error,
              console_log (Error ''Error generating access token:'' (error_details error)) w1))"

definition generateTimestamp :: "world \<Rightarrow> string \<times> world" where
  "generateTimestamp w =
     (let (date, w1) = new_Date w
      in (show_nat (getFullYear date) @
          slice_last2 (''0'' @ show_nat (getMonth date + 1)) @
          slice_last2 (''0'' @ show_nat (getDate date)) @
          slice_last2 (''0'' @ show_nat (getHours date)) @
          slice_last2 (''0'' @ show_nat (getMinutes date)) @
          slice_last2 (''0'' @ show_nat (getSeconds date)), w1))"

text \<open>The result of \<^verbatim>\<open>generatePassword\<close> is the pair \<^verbatim>\<open>{ password, timestamp }\<close>.\<close>

definition generatePassword :: "config \<Rightarrow> world \<Rightarrow> (string \<times> string) \<times> world" where
  "generatePassword cfg w =
     (let (timestamp, w1) = generateTimestamp w;
          password = base64 (template (businessShortCode cfg) @ template (passKey cfg) @ timestamp)
      in ((password, timestamp), w1))"

section \<open>The push handler\<close>

text \<open>
  \<^verbatim>\<open>POST /api/mpesa/stkpush\<close>: the body of the \<^verbatim>\<open>try\<close>, then the handler with its
  \<^verbatim>\<open>catch\<close>. Destructuring \<^verbatim>\<open>req.body\<close> throws when there is no body; on every other
  value it reads the four members.
\<close>

definition stkpush_try :: "config \<Rightarrow> js \<Rightarrow> world \<Rightarrow> (exn + response) \<times> world" where
  "stkpush_try cfg req_body w =
     (if req_body = Undefined \<or> req_body = Null
      then (Inl (TypeError (''Cannot destructure property '' @ quoted ''phoneNumber'' @
                '' of '' @ quoted ''req.body'' @ '' as it is '' @
                (if req_body = Undefined then ''undefined.'' else ''null.''))), w)
      else
        let phoneNumber = opt_member req_body ''phoneNumber'';
            amount = opt_member req_body ''amount'';
            accountReference = opt_member req_body ''accountReference'';
            description = opt_member req_body ''description''
        in if \<not> truthy phoneNumber \<or> \<not> truthy amount
           then (Inr \<lparr>status = 400,
                      body = Json (Obj [(''error'', Str ''Phone number and amount are required'')])\<rparr>,
                 w)
           else
             case formattedPhone_js phoneNumber of
               Inl error \<Rightarrow> (Inl error, w)
             | Inr formattedPhone \<Rightarrow>
                 (case generateAccessToken cfg w of
                    (Inl error, w1) \<Rightarrow> (Inl error, w1)
                  | (Inr accessToken, w1) \<Rightarrow>
                      let ((password, timestamp), w2) = generatePassword cfg w1;
                          stkPushPayload = Obj
                            [(''BusinessShortCode'', js_of (businessShortCode cfg)),
                             (''Password'', Str password),
                             (''Timestamp'', Str timestamp),
                             (''TransactionType'', Str ''CustomerPayBillOnline''),
                             (''Amount'', amount),
                             (''PartyA'', formattedPhone),
                             (''PartyB'', js_of (businessShortCode cfg)),
                             (''PhoneNumber'', formattedPhone),
                             (''CallBackURL'', js_of (callbackURL cfg)),
                             (''AccountReference'', or_else accountReference (Str ''Food Order'')),
                             (''TransactionDesc'',
                                or_else description (Str ''Payment for food order''))]
                      in (case axios
                           \<lparr>http_method = POST,
                            url = (if environment cfg = Some ''production''
                                   then ''https://api.safaricom.co.ke/mpesa/stkpush/v1/processrequest''
                                   else ''https://sandbox.safaricom.co.ke/mpesa/stkpush/v1/processrequest''),
                            payload = Some stkPushPayload,
                            authorization = Bearer accessToken\<rparr> w2 of
                           (Inl error, w3) \<Rightarrow> (Inl error, w3)
                         | (Inr data, w3) \<Rightarrow>
                             (case member data ''CheckoutRequestID'' of
                                Inl error \<Rightarrow> (Inl error, w3)
                              | Inr checkoutRequestID \<Rightarrow>
                                  (Inr \<lparr>status = 200,
                                        body = Json (Obj
                                          [(''success'', Bool True),
                                           (''message'', Str ''STK Push initiated successfully''),
                                           (''data'', data),
                                           (''checkoutRequestID'', checkoutRequestID)])\<rparr>,
                                   w3)))))"

definition stkpush :: "config \<Rightarrow> js \<Rightarrow> world \<Rightarrow> response \<times> world" where
  "stkpush cfg req_body w =
     (case stkpush_try cfg req_body w of
        (Inr res, w1) \<Rightarrow> (res, w1)
      | (Inl error, w1) \<Rightarrow>
          (\<lparr>status = 500,
            body = Json (Obj [(''error'', Str ''Failed to initiate STK Push''),
                              (''details'', error_details error)])\<rparr>,
           console_log (Error ''STK Push error:'' (error_details error)) w1))"

section \<open>The callback handler\<close>

text \<open>
  \<^verbatim>\<open>metadata.find(item => item.Name === n)\<close> on the elements of an array: the first
  element whose \<^verbatim>\<open>Name\<close> is \<open>n\<close>, \<^verbatim>\<open>undefined\<close> when there is none; reading
  \<^verbatim>\<open>item.Name\<close> throws on an element that is \<^verbatim>\<open>null\<close>.
\<close>

fun find_Name :: "string \<Rightarrow> js list \<Rightarrow> exn + js" where
  "find_Name n [] = Inr Undefined"
| "find_Name n (item # items) =
     (case member item ''Name'' of
        Inl error \<Rightarrow> Inl error
      | Inr name \<Rightarrow> if name = Str n then Inr item else find_Name n items)"

text \<open>
  \<^verbatim>\<open>metadata.find(item => item.Name === n)?.Value\<close>: only an array has a \<^verbatim>\<open>find\<close>
  method.
\<close>

fun metadata_find :: "js \<Rightarrow> string \<Rightarrow> exn + js" where
  "metadata_find (Arr items) n =
     (case find_Name n items of
        Inl error \<Rightarrow> Inl error
      | Inr item \<Rightarrow> Inr (opt_member item ''Value''))"
| "metadata_find v n = Inl (TypeError ''metadata.find is not a function'')"

text \<open>
  \<^verbatim>\<open>POST /api/mpesa/callback\<close>. The console prints the body through
  \<^verbatim>\<open>JSON.stringify\<close>; the entry keeps the value. Once \<^verbatim>\<open>stkCallback\<close> is truthy its
  members are read without a throw, which is what \<open>opt_member\<close> computes.
\<close>

definition callback_try :: "js \<Rightarrow> world \<Rightarrow> (exn + response) \<times> world" where
  "callback_try callbackData w =
     (let w1 = console_log (Log ''Mpesa Callback Received:'' callbackData) w
      in case member callbackData ''Body'' of
           Inl error \<Rightarrow> (Inl error, w1)
         | Inr Body \<Rightarrow>
        (case member Body ''stkCallback'' of
           Inl error \<Rightarrow> (Inl error, w1)
         | Inr stkCallback \<Rightarrow>
        (case
           (if truthy stkCallback \<and> opt_member stkCallback ''ResultCode'' = Num (Finite 0)
            then
              let result = stkCallback;
                  metadata =
                    or_else (opt_member (opt_member result ''CallbackMetadata'') ''Item'') (Arr [])
              in case metadata_find metadata ''Amount'' of
                   Inl error \<Rightarrow> (Inl error, w1)
                 | Inr amount \<Rightarrow>
                (case metadata_find metadata ''MpesaReceiptNumber'' of
                   Inl error \<Rightarrow> (Inl error, w1)
                 | Inr mpesaReceiptNumber \<Rightarrow>
                (case metadata_find metadata ''PhoneNumber'' of
                   Inl error \<Rightarrow> (Inl error, w1)
                 | Inr phoneNumber \<Rightarrow>
                (case metadata_find metadata ''TransactionDate'' of
                   Inl error \<Rightarrow> (Inl error, w1)
                 | Inr transactionDate \<Rightarrow>
                     (Inr (),
                      console_log (Log ''Payment successful:'' (Obj
                        [(''amount'', amount),
                         (''mpesaReceiptNumber'', mpesaReceiptNumber),
                         (''phoneNumber'', phoneNumber),
                         (''transactionDate'', transactionDate),
                         (''accountReference'', opt_member result ''MerchantRequestID'')]))
                        w1))))
            else
              (Inr (),
               console_log (Log ''Payment failed:'' (opt_member stkCallback ''ResultDesc'')) w1))
         of
           (Inl error, w2) \<Rightarrow> (Inl error, w2)
         | (Inr u, w2) \<Rightarrow>
             (Inr \<lparr>status = 200, body = Text ''Callback received successfully''\<rparr>, w2))))"

definition callback :: "js \<Rightarrow> world \<Rightarrow> response \<times> world" where
  "callback callbackData w =
     (case callback_try callbackData w of
        (Inr res, w1) \<Rightarrow> (res, w1)
      | (Inl error, w1) \<Rightarrow>
          (\<lparr>status = 500, body = Text ''Error processing callback''\<rparr>,
           console_log (ErrorExn ''Callback processing error:'' error) w1))"

section \<open>The status handler\<close>

text \<open>
  \<^verbatim>\<open>GET /api/payment/status/:checkoutRequestID\<close>. The members of the payload are
  evaluated in the order they are written: \<^verbatim>\<open>generatePassword().password\<close>, then
  \<^verbatim>\<open>generateTimestamp()\<close>.
\<close>

definition payment_status_try ::
    "config \<Rightarrow> string \<Rightarrow> world \<Rightarrow> (exn + response) \<times> world" where
  "payment_status_try cfg checkoutRequestID w =
     (case generateAccessToken cfg w of
        (Inl error, w1) \<Rightarrow> (Inl error, w1)
      | (Inr accessToken, w1) \<Rightarrow>
          let ((password, unused), w2) = generatePassword cfg w1;
              (timestamp, w3) = generateTimestamp w2
          in (case axios
               \<lparr>http_method = POST,
                url = (if environment cfg = Some ''production''
                       then ''https://api.safaricom.co.ke/mpesa/stkpushquery/v1/query''
                       else ''https://sandbox.safaricom.co.ke/mpesa/stkpushquery/v1/query''),
                payload = Some (Obj
                  [(''BusinessShortCode'', js_of (businessShortCode cfg)),
                   (''Password'', Str password),
                   (''Timestamp'', Str timestamp),
                   (''CheckoutRequestID'', Str checkoutRequestID)]),
                authorization = Bearer accessToken\<rparr> w3 of
               (Inl error, w4) \<Rightarrow> (Inl error, w4)
             | (Inr data, w4) \<Rightarrow> (Inr \<lparr>status = 200, body = Json data\<rparr>, w4)))"

definition payment_status :: "config \<Rightarrow> string \<Rightarrow> world \<Rightarrow> response \<times> world" where
  "payment_status cfg checkoutRequestID w =
     (case payment_status_try cfg checkoutRequestID w of
        (Inr res, w1) \<Rightarrow> (res, w1)
      | (Inl error, w1) \<Rightarrow>
          (\<lparr>status = 500,
            body = Json (Obj [(''error'', Str ''Failed to check payment status'')])\<rparr>,
           console_log (Error ''Payment status check error:'' (error_details error)) w1))"

section \<open>Observations and examples\<close>

text \<open>The requests sent, and the console lines printed, between two states of the world.\<close>

definition sent :: "world \<Rightarrow> world \<Rightarrow> request list" where
  "sent w w' = drop (length (calls w)) (calls w')"

definition printed :: "world \<Rightarrow> world \<Rightarrow> console_entry list" where
  "printed w w' = drop (length (console w)) (console w')"

definition payload_member :: "request \<Rightarrow> string \<Rightarrow> js" where
  "payload_member rq n = (case payload rq of None \<Rightarrow> Undefined | Some p \<Rightarrow> opt_member p n)"

text \<open>The responses the handlers build, and the first console line of the callback.\<close>

definition validation_error :: response where
  "validation_error =
     \<lparr>status = 400, body = Json (Obj [(''error'', Str ''Phone number and amount are required'')])\<rparr>"

definition acknowledgment :: response where
  "acknowledgment = \<lparr>status = 200, body = Text ''Callback received successfully''\<rparr>"

definition error_acknowledgment :: response where
  "error_acknowledgment = \<lparr>status = 500, body = Text ''Error processing callback''\<rparr>"

definition received :: "js \<Rightarrow> world \<Rightarrow> world" where
  "received callbackData w = console_log (Log ''Mpesa Callback Received:'' callbackData) w"

text \<open>
  The envelope \<^verbatim>\<open>callbackData.Body.stkCallback\<close> of a body, the metadata of a success
  callback as the handler computes it, the values on which a member can be read, and the
  values that have string methods.
\<close>

definition envelope_of :: "js \<Rightarrow> js" where
  "envelope_of callbackData = opt_member (opt_member callbackData ''Body'') ''stkCallback''"

definition callback_metadata :: "js \<Rightarrow> js" where
  "callback_metadata stkCallback =
     or_else (opt_member (opt_member stkCallback ''CallbackMetadata'') ''Item'') (Arr [])"

definition readable :: "js \<Rightarrow> bool" where
  "readable item = (item \<noteq> Undefined \<and> item \<noteq> Null)"

fun is_Str :: "js \<Rightarrow> bool" where
  "is_Str (Str s) = True"
| "is_Str v = False"

text \<open>
  Lookup by name as the specification words it: the value of the first pair of the list
  with that name, absent when there is none.
\<close>

definition metadata_value :: "js list \<Rightarrow> string \<Rightarrow> js" where
  "metadata_value items n =
     (case find (\<lambda>item. opt_member item ''Name'' = Str n) items of
        None \<Rightarrow> Undefined
      | Some item \<Rightarrow> opt_member item ''Value'')"

text \<open>
  The envelope shape as the specification words it:
  \<^verbatim>\<open>Body.stkCallback.{ResultCode, ResultDesc, MerchantRequestID, CheckoutRequestID,
  CallbackMetadata.Item[]}\<close>, the metadata being a list of pairs that is present only on
  success.
\<close>

fun is_Obj :: "js \<Rightarrow> bool" where
  "is_Obj (Obj kvs) = True"
| "is_Obj v = False"

fun is_item_list :: "js \<Rightarrow> bool" where
  "is_item_list (Arr items) = list_all is_Obj items"
| "is_item_list v = False"

definition envelope_shape :: "js \<Rightarrow> bool" where
  "envelope_shape callbackData =
     (let stkCallback = envelope_of callbackData;
          CallbackMetadata = opt_member stkCallback ''CallbackMetadata''
      in is_Obj stkCallback \<and>
         (CallbackMetadata = Undefined \<or>
          is_Obj CallbackMetadata \<and> is_item_list (opt_member CallbackMetadata ''Item'')))"

text \<open>A configuration, a clock that passes midnight between two reads, and gateways.\<close>

definition sandbox_config :: config where
  "sandbox_config =
     \<lparr>consumerKey = Some ''key'', consumerSecret = Some ''secret'',
      businessShortCode = Some ''174379'', passKey = Some ''bfb279f9'',
      callbackURL = Some ''https://example.com/api/mpesa/callback'',
      environment = Some ''sandbox''\<rparr>"

definition new_year_clock :: "nat \<Rightarrow> date" where
  "new_year_clock n =
     (if n = 0
      then \<lparr>getFullYear = 2026, getMonth = 11, getDate = 31,
            getHours = 23, getMinutes = 59, getSeconds = 59\<rparr>
      else \<lparr>getFullYear = 2027, getMonth = 0, getDate = 1,
            getHours = 0, getMinutes = 0, getSeconds = 0\<rparr>)"

definition accepting_gateway :: "nat \<Rightarrow> request \<Rightarrow> exn + js" where
  "accepting_gateway n rq =
     Inr (Obj [(''access_token'', Str ''t0k3n''), (''CheckoutRequestID'', Str ''ws_CO_1'')])"

definition accepting_world :: world where
  "accepting_world =
     \<lparr>clock = new_year_clock, ticks = 0, gateway = accepting_gateway,
      calls = [], console = []\<rparr>"

text \<open>A gateway that issues tokens and answers every other request with an error body.\<close>

definition upstream_error :: js where
  "upstream_error =
     Obj [(''requestId'', Str ''ws_CO_0''), (''errorCode'', Str ''500.001.1001''),
          (''errorMessage'', Str ''The transaction is being processed'')]"

definition rejecting_gateway :: "nat \<Rightarrow> request \<Rightarrow> exn + js" where
  "rejecting_gateway n rq =
     (if http_method rq = GET then Inr (Obj [(''access_token'', Str ''t0k3n'')])
      else Inl (AxiosError (Some upstream_error) ''Request failed with status code 500''))"

definition rejecting_world :: world where
  "rejecting_world =
     \<lparr>clock = new_year_clock, ticks = 0, gateway = rejecting_gateway,
      calls = [], console = []\<rparr>"

text \<open>
  Callback bodies: a paid request with the metadata of the specification's example, a
  cancelled one, one without an envelope, and a cancelled one whose metadata holds
  \<^verbatim>\<open>null\<close>.
\<close>

definition success_items :: "js list" where
  "success_items =
     [Obj [(''Name'', Str ''Amount''), (''Value'', Num (Finite 500))],
      Obj [(''Name'', Str ''MpesaReceiptNumber''), (''Value'', Str ''ABC123'')]]"

definition success_envelope :: js where
  "success_envelope =
     Obj [(''Body'', Obj [(''stkCallback'', Obj
       [(''MerchantRequestID'', Str ''29115-34620561-1''),
        (''CheckoutRequestID'', Str ''ws_CO_1''),
        (''ResultCode'', Num (Finite 0)),
        (''ResultDesc'', Str ''The service request is processed successfully.''),
        (''CallbackMetadata'', Obj [(''Item'', Arr success_items)])])])]"

definition cancelled_envelope :: js where
  "cancelled_envelope =
     Obj [(''Body'', Obj [(''stkCallback'', Obj
       [(''MerchantRequestID'', Str ''29115-34620561-1''),
        (''CheckoutRequestID'', Str ''ws_CO_1''),
        (''ResultCode'', Num (Finite 1032)),
        (''ResultDesc'', Str ''Request cancelled by user''),
        (''CallbackMetadata'', Obj [(''Item'', Arr
          [Obj [(''Name'', Str ''Amount''), (''Value'', Num (Finite 500))]])])])])]"

definition empty_Body :: js where
  "empty_Body = Obj [(''Body'', Obj [])]"

definition null_item_envelope :: js where
  "null_item_envelope =
     Obj [(''Body'', Obj [(''stkCallback'', Obj
       [(''ResultCode'', Num (Finite 1032)),
        (''ResultDesc'', Str ''Request cancelled by user''),
        (''CallbackMetadata'', Obj [(''Item'', Arr [Null])])])])]"

definition null_item_success :: js where
  "null_item_success =
     Obj [(''Body'', Obj [(''stkCallback'', Obj
       [(''MerchantRequestID'', Str ''29115-34620561-1''),
        (''ResultCode'', Num (Finite 0)),
        (''ResultDesc'', Str ''The service request is processed successfully.''),
        (''CallbackMetadata'', Obj [(''Item'', Arr
          [Obj [(''Name'', Str ''Amount''), (''Value'', Num (Finite 500))], Null])])])])]"

text \<open>
  When a lookup by name throws, said on the metadata itself and without the lookup
  function: the metadata is not a list, or an entry that is \<^verbatim>\<open>null\<close> or
  \<^verbatim>\<open>undefined\<close> comes before the first entry with that name. The four names are the
  ones the handler looks up.
\<close>

fun lookup_throws :: "js \<Rightarrow> string \<Rightarrow> bool" where
  "lookup_throws (Arr items) n =
     (\<not> list_all readable (takeWhile (\<lambda>item. opt_member item ''Name'' \<noteq> Str n) items))"
| "lookup_throws v n = True"

definition metadata_names :: "string list" where
  "metadata_names = [''Amount'', ''MpesaReceiptNumber'', ''PhoneNumber'', ''TransactionDate'']"

text \<open>Push requests: a well-formed one, one with a negative amount, one with a numeric phone.\<close>

definition valid_request :: js where
  "valid_request = Obj [(''phoneNumber'', Str ''0712345678''), (''amount'', Num (Finite 100))]"

definition negative_amount_request :: js where
  "negative_amount_request =
     Obj [(''phoneNumber'', Str ''0712345678''), (''amount'', Num (Finite (- 5)))]"

definition numeric_phone_request :: js where
  "numeric_phone_request =
     Obj [(''phoneNumber'', Num (Finite 712345678)), (''amount'', Num (Finite 100))]"

section \<open>Base64 is injective\<close>

lemma of_char_lt: "of_char c < (256::nat)"
proof -
  have "(of_char c :: nat) mod 256 = of_char c" by simp
  then show ?thesis
    by (metis mod_less_divisor zero_less_numeral)
qed

lemma radix_eq:
  fixes p q p' q' m :: nat
  assumes "q < m" "q' < m" "p * m + q = p' * m + q'"
  shows "p = p' \<and> q = q'"
proof -
  have "(p * m + q) div m = p" "(p * m + q) mod m = q" using assms(1) by simp_all
  moreover have "(p' * m + q') div m = p'" "(p' * m + q') mod m = q'" using assms(2) by simp_all
  ultimately show ?thesis using assms(3) by simp
qed

lemma div_mod_eq:
  fixes x x' m :: nat
  assumes "x div m = x' div m" "x mod m = x' mod m"
  shows "x = x'"
  by (metis assms div_mult_mod_eq)

lemma sextet_bounds:
  fixes x y z :: nat
  shows "x < 256 \<Longrightarrow> x div 4 < 64"
    and "(x mod 4) * 16 < 64"
    and "y < 256 \<Longrightarrow> (x mod 4) * 16 + y div 16 < 64"
    and "(y mod 16) * 4 < 64"
    and "z < 256 \<Longrightarrow> (y mod 16) * 4 + z div 64 < 64"
    and "z mod 64 < 64"
proof -
  have a: "x mod 4 < 4" "y mod 16 < 16" by simp_all
  show "x < 256 \<Longrightarrow> x div 4 < 64" by simp
  show "(x mod 4) * 16 < 64" using a by linarith
  show "(y mod 16) * 4 < 64" using a by linarith
  show "z mod 64 < 64" by simp
  show "(x mod 4) * 16 + y div 16 < 64" if "y < 256"
  proof -
    from that have "y div 16 < 16" by simp
    with a show ?thesis by linarith
  qed
  show "(y mod 16) * 4 + z div 64 < 64" if "z < 256"
  proof -
    from that have "z div 64 < 4" by simp
    with a show ?thesis by linarith
  qed
qed

lemma group1_inj:
  fixes x x' :: nat
  assumes "x div 4 = x' div 4" "(x mod 4) * 16 = (x' mod 4) * 16"
  shows "x = x'"
  using assms by (intro div_mod_eq [of x 4 x']) simp_all

lemma group2_inj:
  fixes x x' y y' :: nat
  assumes "y < 256" "y' < 256"
    and "x div 4 = x' div 4" "(x mod 4) * 16 + y div 16 = (x' mod 4) * 16 + y' div 16"
    "(y mod 16) * 4 = (y' mod 16) * 4"
  shows "x = x' \<and> y = y'"
proof -
  have "y div 16 < 16" "y' div 16 < 16" using assms(1,2) by simp_all
  from radix_eq [OF this assms(4)] have "x mod 4 = x' mod 4" "y div 16 = y' div 16" by simp_all
  moreover have "y mod 16 = y' mod 16" using assms(5) by simp
  ultimately show ?thesis
    using assms(3) div_mod_eq [of x 4 x'] div_mod_eq [of y 16 y'] by blast
qed

lemma group3_inj:
  fixes x x' y y' z z' :: nat
  assumes "y < 256" "y' < 256" "z < 256" "z' < 256"
    and "x div 4 = x' div 4" "(x mod 4) * 16 + y div 16 = (x' mod 4) * 16 + y' div 16"
    "(y mod 16) * 4 + z div 64 = (y' mod 16) * 4 + z' div 64" "z mod 64 = z' mod 64"
  shows "x = x' \<and> y = y' \<and> z = z'"
proof -
  have "y div 16 < 16" "y' div 16 < 16" using assms(1,2) by simp_all
  from radix_eq [OF this assms(6)] have 1: "x mod 4 = x' mod 4" "y div 16 = y' div 16" by simp_all
  have "z div 64 < 4" "z' div 64 < 4" using assms(3,4) by simp_all
  from radix_eq [OF this assms(7)] have 2: "y mod 16 = y' mod 16" "z div 64 = z' div 64" by simp_all
  show ?thesis
    using 1 2 assms(5,8) div_mod_eq [of x 4 x'] div_mod_eq [of y 16 y'] div_mod_eq [of z 64 z']
    by blast
qed


lemma distinct_b64chars: "distinct b64chars"
  by (simp add: b64chars_def)

lemma length_b64chars: "length b64chars = 64"
  by (simp add: b64chars_def)

lemma b64_inj: "i < 64 \<Longrightarrow> j < 64 \<Longrightarrow> b64 i = b64 j \<Longrightarrow> i = j"
  by (simp add: b64_def nth_eq_iff_index_eq distinct_b64chars length_b64chars)

lemma pad_notin: "CHR ''='' \<notin> set b64chars"
  by (simp add: b64chars_def)

lemma b64_not_pad: "i < 64 \<Longrightarrow> b64 i \<noteq> CHR ''=''"
proof
  assume "i < 64" and "b64 i = CHR ''=''"
  then have "CHR ''='' \<in> set b64chars"
    using nth_mem [of i b64chars] by (simp add: b64_def length_b64chars)
  with pad_notin show False by contradiction
qed

lemma b64_group1:
  fixes x x' :: nat
  assumes "x < 256" "x' < 256"
    and "b64 (x div 4) = b64 (x' div 4)" "b64 ((x mod 4) * 16) = b64 ((x' mod 4) * 16)"
  shows "x = x'"
proof -
  have "x div 4 = x' div 4"
    using assms(1-3) by (intro b64_inj sextet_bounds)
  moreover have "(x mod 4) * 16 = (x' mod 4) * 16"
    using assms(4) by (intro b64_inj sextet_bounds)
  ultimately show ?thesis by (rule group1_inj)
qed

lemma b64_group2:
  fixes x x' y y' :: nat
  assumes "x < 256" "x' < 256" "y < 256" "y' < 256"
    and "b64 (x div 4) = b64 (x' div 4)"
    and "b64 ((x mod 4) * 16 + y div 16) = b64 ((x' mod 4) * 16 + y' div 16)"
    and "b64 ((y mod 16) * 4) = b64 ((y' mod 16) * 4)"
  shows "x = x' \<and> y = y'"
proof -
  have "x div 4 = x' div 4"
    using assms(1,2,5) by (intro b64_inj sextet_bounds)
  moreover have "(x mod 4) * 16 + y div 16 = (x' mod 4) * 16 + y' div 16"
    using assms(3,4,6) by (intro b64_inj sextet_bounds)
  moreover have "(y mod 16) * 4 = (y' mod 16) * 4"
    using assms(7) by (intro b64_inj sextet_bounds)
  ultimately show ?thesis using assms(3,4) by (intro group2_inj)
qed

lemma b64_group3:
  fixes x x' y y' z z' :: nat
  assumes "x < 256" "x' < 256" "y < 256" "y' < 256" "z < 256" "z' < 256"
    and "b64 (x div 4) = b64 (x' div 4)"
    and "b64 ((x mod 4) * 16 + y div 16) = b64 ((x' mod 4) * 16 + y' div 16)"
    and "b64 ((y mod 16) * 4 + z div 64) = b64 ((y' mod 16) * 4 + z' div 64)"
    and "b64 (z mod 64) = b64 (z' mod 64)"
  shows "x = x' \<and> y = y' \<and> z = z'"
proof -
  have "x div 4 = x' div 4"
    using assms(1,2,7) by (intro b64_inj sextet_bounds)
  moreover have "(x mod 4) * 16 + y div 16 = (x' mod 4) * 16 + y' div 16"
    using assms(3,4,8) by (intro b64_inj sextet_bounds)
  moreover have "(y mod 16) * 4 + z div 64 = (y' mod 16) * 4 + z' div 64"
    using assms(3-6,9) by (intro b64_inj sextet_bounds)
  moreover have "z mod 64 = z' mod 64"
    using assms(10) by (intro b64_inj sextet_bounds)
  ultimately show ?thesis using assms(3-6) by (intro group3_inj)
qed

text \<open>The third and fourth character of a full group are never the padding character.\<close>

lemma pad_neq:
  fixes y z :: nat
  shows "b64 ((y mod 16) * 4) \<noteq> CHR ''=''" "CHR ''='' \<noteq> b64 ((y mod 16) * 4)"
    and "b64 (z mod 64) \<noteq> CHR ''=''" "CHR ''='' \<noteq> b64 (z mod 64)"
  using b64_not_pad [OF sextet_bounds(4), of y] b64_not_pad [OF sextet_bounds(6), of z]
  by (simp_all add: eq_commute [of "CHR ''=''"])

lemma base64_inj: "base64 xs = base64 ys \<Longrightarrow> xs = ys"
proof (induction xs arbitrary: ys rule: base64.induct)
  case 1
  then show ?case by (cases ys rule: base64.cases) simp_all
next
  case (2 a)
  show ?case
  proof (cases ys rule: base64.cases)
    case 1
    with 2 show ?thesis by simp
  next
    case (2 a')
    with "2.prems" have "(of_char a :: nat) = of_char a'"
      by (intro b64_group1 of_char_lt) simp_all
    with 2 show ?thesis by simp
  next
    case (3 a' b')
    with "2.prems" show ?thesis by (simp add: pad_neq)
  next
    case (4 a' b' c' rest)
    with "2.prems" show ?thesis by (simp add: pad_neq)
  qed
next
  case (3 a b)
  show ?case
  proof (cases ys rule: base64.cases)
    case 1
    with 3 show ?thesis by simp
  next
    case (2 a')
    with "3.prems" show ?thesis by (simp add: pad_neq)
  next
    case (3 a' b')
    with "3.prems" have "(of_char a :: nat) = of_char a' \<and> (of_char b :: nat) = of_char b'"
      by (intro b64_group2 of_char_lt) simp_all
    with 3 show ?thesis by simp
  next
    case (4 a' b' c' rest)
    with "3.prems" show ?thesis by (simp add: pad_neq)
  qed
next
  case (4 a b c rest)
  show ?case
  proof (cases ys rule: base64.cases)
    case 1
    with 4 show ?thesis by simp
  next
    case (2 a')
    with "4.prems" show ?thesis by (simp add: pad_neq)
  next
    case (3 a' b')
    with "4.prems" show ?thesis by (simp add: pad_neq)
  next
    case ys: (4 a' b' c' rest')
    with "4.prems" have
      "(of_char a :: nat) = of_char a' \<and> (of_char b :: nat) = of_char b' \<and>
       (of_char c :: nat) = of_char c'"
      by (intro b64_group3 of_char_lt) simp_all
    moreover from ys "4.prems" have "base64 rest = base64 rest'" by simp
    then have "rest = rest'" by (rule "4.IH")
    ultimately show ?thesis using ys by simp
  qed
qed

text \<open>The shape of an encoding, and the test vectors of RFC 4648.\<close>

lemma b64_mem: "i < 64 \<Longrightarrow> b64 i \<in> set b64chars"
  by (simp add: b64_def length_b64chars)

lemma length_base64: "length (base64 bytes) = 4 * ((length bytes + 2) div 3)"
proof (induction bytes rule: base64.induct)
  case (4 a b c rest)
  have "(length rest + 5) div 3 = Suc ((length rest + 2) div 3)" by presburger
  with 4 show ?case by (simp add: add.commute)
qed simp_all

lemma set_base64: "set (base64 bytes) \<subseteq> set b64chars \<union> {CHR ''=''}"
  by (induction bytes rule: base64.induct)
    (simp_all add: b64_mem sextet_bounds)

lemma base64_vectors:
  "base64 [] = []" "base64 ''f'' = ''Zg==''" "base64 ''fo'' = ''Zm8=''"
  "base64 ''foo'' = ''Zm9v''" "base64 ''foob'' = ''Zm9vYg==''"
  "base64 ''fooba'' = ''Zm9vYmE=''" "base64 ''foobar'' = ''Zm9vYmFy''"
  by code_simp+

section \<open>Decimal digits\<close>

lemma show_nat_digit: "n < 10 \<Longrightarrow> show_nat n = [digit n]"
  by (simp add: show_nat.simps)

lemma show_nat_more: "10 \<le> n \<Longrightarrow> show_nat n = show_nat (n div 10) @ [digit (n mod 10)]"
  by (subst show_nat.simps) simp

section \<open>Phone normalization\<close>

text \<open>
  Claim C2. The normalization applies three rules in order: a number that starts with
  \<^verbatim>\<open>0\<close> has that \<^verbatim>\<open>0\<close> replaced by \<^verbatim>\<open>254\<close>; otherwise a number that starts with
  \<^verbatim>\<open>+254\<close> loses the \<^verbatim>\<open>+\<close>; every other input is returned unchanged. So
  \<^verbatim>\<open>0712345678\<close> and \<^verbatim>\<open>+254712345678\<close> both become \<^verbatim>\<open>254712345678\<close>, which itself
  is unchanged.
\<close>

theorem phone_normalization_rules:
  "formattedPhone_of (CHR ''0'' # rest) = ''254'' @ rest \<and>
   formattedPhone_of (''+254'' @ rest) = ''254'' @ rest \<and>
   (\<not> prefix ''0'' p \<and> \<not> prefix ''+254'' p \<longrightarrow> formattedPhone_of p = p) \<and>
   formattedPhone_of ''0712345678'' = ''254712345678'' \<and>
   formattedPhone_of ''+254712345678'' = ''254712345678'' \<and>
   formattedPhone_of ''254712345678'' = ''254712345678''"
  by (simp add: formattedPhone_of_def startsWith_def slice1_def)

theorem phone_normalization_rules_witness:
  "\<not> prefix ''0'' ''254712345678'' \<and> \<not> prefix ''+254'' ''254712345678'' \<and>
   formattedPhone_of ''254712345678'' = ''254712345678'' \<and>
   formattedPhone_of (CHR ''0'' # ''712345678'') = ''254712345678''"
  using phone_normalization_rules [of "''712345678''" "''254712345678''"] by simp

section \<open>Effects of the credential functions\<close>

lemma generateTimestamp_world:
  "snd (generateTimestamp w) = w\<lparr>ticks := Suc (ticks w)\<rparr>"
  by (simp add: generateTimestamp_def new_Date_def)

lemma generateTimestamp_clock:
  "clock w' = clock w \<Longrightarrow> ticks w' = ticks w \<Longrightarrow>
   fst (generateTimestamp w') = fst (generateTimestamp w)"
  by (simp add: generateTimestamp_def new_Date_def)

lemma generatePassword_eq:
  "generatePassword cfg w =
     ((base64 (template (businessShortCode cfg) @ template (passKey cfg) @
         fst (generateTimestamp w)), fst (generateTimestamp w)),
      snd (generateTimestamp w))"
  by (simp add: generatePassword_def split_beta)

lemma generateAccessToken_world:
  "snd (generateAccessToken cfg w) =
     (let w1 = w\<lparr>calls := calls w @
        [\<lparr>http_method = GET,
          url = (if environment cfg = Some ''production''
                 then ''https://api.safaricom.co.ke/oauth/v1/generate?grant_type=client_credentials''
                 else ''https://sandbox.safaricom.co.ke/oauth/v1/generate?grant_type=client_credentials''),
          payload = None,
          authorization = Basic (base64 (template (consumerKey cfg) @ '':'' @
            template (consumerSecret cfg)))\<rparr>]\<rparr>
      in case fst (generateAccessToken cfg w) of
           Inr accessToken \<Rightarrow> w1
         | Inl error \<Rightarrow>
             console_log (Error ''Error generating access token:'' (error_details error)) w1)"
  by (simp add: generateAccessToken_def axios_def Let_def split: sum.splits split del: if_split)

lemma generateAccessToken_sent:
  "\<exists>r. http_method r = GET \<and> calls (snd (generateAccessToken cfg w)) = calls w @ [r]"
  by (simp add: generateAccessToken_world console_log_def Let_def split: sum.splits
      split del: if_split)

lemma generateAccessToken_ticks:
  "ticks (snd (generateAccessToken cfg w)) = ticks w"
  "clock (snd (generateAccessToken cfg w)) = clock w"
  "gateway (snd (generateAccessToken cfg w)) = gateway w"
  by (simp_all add: generateAccessToken_world console_log_def Let_def split: sum.splits
      split del: if_split)

text \<open>The example configuration, and the two reads of the example clock.\<close>

lemma sandbox_config_fields:
  "businessShortCode sandbox_config = Some ''174379''"
  "passKey sandbox_config = Some ''bfb279f9''"
  by (simp_all add: sandbox_config_def)

lemma timestamp_accepting:
  "fst (generateTimestamp accepting_world) = ''20261231235959''"
  "fst (generateTimestamp (snd (generateTimestamp accepting_world))) = ''20270101000000''"
  by code_simp+

section \<open>Password derivation\<close>

text \<open>
  Claim C5. With short code and pass key set, the password that \<^verbatim>\<open>generatePassword\<close>
  returns is the base64 encoding of short code, pass key and the returned timestamp, in
  this order. Two derivations with the same short code and pass key give the same
  password when their timestamps are equal, and different passwords when their timestamps
  differ. The encoding is the one of RFC 4648: it maps the test vectors of the RFC to
  their encodings, gives four characters of the alphabet or padding for every three bytes
  begun, and is injective.
\<close>

theorem password_derivation:
  "(businessShortCode cfg = Some shortCode \<and> passKey cfg = Some key \<and>
    businessShortCode cfg' = Some shortCode \<and> passKey cfg' = Some key \<longrightarrow>
    (let (password, timestamp) = fst (generatePassword cfg w);
         (password', timestamp') = fst (generatePassword cfg' w')
     in password = base64 (shortCode @ key @ timestamp) \<and>
        (timestamp = timestamp' \<longrightarrow> password = password') \<and>
        (timestamp \<noteq> timestamp' \<longrightarrow> password \<noteq> password'))) \<and>
   base64 [] = [] \<and> base64 ''f'' = ''Zg=='' \<and> base64 ''fo'' = ''Zm8='' \<and>
   base64 ''foo'' = ''Zm9v'' \<and> base64 ''foob'' = ''Zm9vYg=='' \<and>
   base64 ''fooba'' = ''Zm9vYmE='' \<and> base64 ''foobar'' = ''Zm9vYmFy'' \<and>
   length (base64 bytes) = 4 * ((length bytes + 2) div 3) \<and>
   set (base64 bytes) \<subseteq> set b64chars \<union> {CHR ''=''} \<and>
   (base64 bytes = base64 bytes' \<longrightarrow> bytes = bytes')"
proof -
  have "base64 (shortCode @ key @ t) = base64 (shortCode @ key @ t') \<Longrightarrow> t = t'" for t t'
    using base64_inj [of "shortCode @ key @ t" "shortCode @ key @ t'"] by simp
  then have "businessShortCode cfg = Some shortCode \<and> passKey cfg = Some key \<and>
    businessShortCode cfg' = Some shortCode \<and> passKey cfg' = Some key \<longrightarrow>
    (let (password, timestamp) = fst (generatePassword cfg w);
         (password', timestamp') = fst (generatePassword cfg' w')
     in password = base64 (shortCode @ key @ timestamp) \<and>
        (timestamp = timestamp' \<longrightarrow> password = password') \<and>
        (timestamp \<noteq> timestamp' \<longrightarrow> password \<noteq> password'))"
    by (auto simp: generatePassword_eq)
  moreover note base64_vectors length_base64 [of bytes] set_base64 [of bytes]
  moreover have "base64 bytes = base64 bytes' \<longrightarrow> bytes = bytes'"
    using base64_inj by blast
  ultimately show ?thesis by (intro conjI)
qed

lemma password_examples:
  "base64 (''174379'' @ ''bfb279f9'' @ ''20261231235959'') =
     ''MTc0Mzc5YmZiMjc5ZjkyMDI2MTIzMTIzNTk1OQ==''"
  "base64 (''174379'' @ ''bfb279f9'' @ ''20270101000000'') =
     ''MTc0Mzc5YmZiMjc5ZjkyMDI3MDEwMTAwMDAwMA==''"
  by code_simp+

theorem password_derivation_witness:
  "fst (generatePassword sandbox_config accepting_world) =
     (''MTc0Mzc5YmZiMjc5ZjkyMDI2MTIzMTIzNTk1OQ=='', ''20261231235959'') \<and>
   fst (generatePassword sandbox_config (snd (generateTimestamp accepting_world))) =
     (''MTc0Mzc5YmZiMjc5ZjkyMDI3MDEwMTAwMDAwMA=='', ''20270101000000'') \<and>
   fst (generatePassword sandbox_config accepting_world) =
     (base64 (''174379'' @ ''bfb279f9'' @ ''20261231235959''), ''20261231235959'') \<and>
   fst (generatePassword sandbox_config (snd (generateTimestamp accepting_world))) =
     (base64 (''174379'' @ ''bfb279f9'' @ ''20270101000000''), ''20270101000000'') \<and>
   fst (fst (generatePassword sandbox_config accepting_world)) \<noteq>
   fst (fst (generatePassword sandbox_config (snd (generateTimestamp accepting_world))))"
proof -
  from password_derivation [of sandbox_config "''174379''" "''bfb279f9''" sandbox_config
      accepting_world "snd (generateTimestamp accepting_world)"]
  have "fst (fst (generatePassword sandbox_config accepting_world)) =
      base64 (''174379'' @ ''bfb279f9'' @ ''20261231235959'') \<and>
    fst (fst (generatePassword sandbox_config accepting_world)) \<noteq>
    fst (fst (generatePassword sandbox_config (snd (generateTimestamp accepting_world))))"
    by (simp add: generatePassword_eq timestamp_accepting sandbox_config_fields
        del: base64.simps)
  moreover have "generatePassword sandbox_config v =
     ((base64 (''174379'' @ ''bfb279f9'' @ fst (generateTimestamp v)), fst (generateTimestamp v)),
      snd (generateTimestamp v))" for v
    by (simp add: generatePassword_eq sandbox_config_fields del: base64.simps)
  ultimately show ?thesis
    by (simp only: password_examples timestamp_accepting fst_conv simp_thms)
qed

section \<open>The push handler by cases\<close>

lemma opt_member_Obj: "opt_member v n \<noteq> Undefined \<Longrightarrow> \<exists>kvs. v = Obj kvs"
  by (cases v) simp_all

lemma truthy_member:
  assumes "truthy (opt_member v n)"
  shows "v \<noteq> Undefined" "v \<noteq> Null"
  using assms by auto

lemma is_Str_cases: "is_Str v \<Longrightarrow> \<exists>s. v = Str s"
  by (cases v) simp_all

lemma stkpush_try_nullish:
  "req_body = Undefined \<or> req_body = Null \<Longrightarrow> snd (stkpush_try cfg req_body w) = w"
  by (simp add: stkpush_try_def split del: if_split)

lemma stkpush_try_invalid:
  "req_body \<noteq> Undefined \<Longrightarrow> req_body \<noteq> Null \<Longrightarrow>
   \<not> truthy (opt_member req_body ''phoneNumber'') \<or> \<not> truthy (opt_member req_body ''amount'') \<Longrightarrow>
   stkpush_try cfg req_body w = (Inr validation_error, w)"
  by (simp add: stkpush_try_def validation_error_def Let_def split del: if_split)

lemma stkpush_try_not_string:
  assumes "truthy (opt_member req_body ''phoneNumber'')" "truthy (opt_member req_body ''amount'')"
    and "\<not> is_Str (opt_member req_body ''phoneNumber'')"
  shows "stkpush_try cfg req_body w =
     (Inl (TypeError ''phoneNumber.startsWith is not a function''), w)"
proof -
  from assms(3) have
    "formattedPhone_js (opt_member req_body ''phoneNumber'') =
       Inl (TypeError ''phoneNumber.startsWith is not a function'')"
    by (cases "opt_member req_body ''phoneNumber''") simp_all
  with assms(1,2) truthy_member [OF assms(1)] show ?thesis
    by (simp add: stkpush_try_def Let_def split del: if_split)
qed

lemma stkpush_try_token_error:
  assumes "truthy (opt_member req_body ''phoneNumber'')" "truthy (opt_member req_body ''amount'')"
    and "opt_member req_body ''phoneNumber'' = Str phoneNumber"
    and "generateAccessToken cfg w = (Inl error, w1)"
  shows "stkpush_try cfg req_body w = (Inl error, w1)"
  using assms truthy_member [OF assms(1)]
  by (simp add: stkpush_try_def Let_def split del: if_split)

lemma stkpush_try_token:
  assumes "truthy (opt_member req_body ''phoneNumber'')" "truthy (opt_member req_body ''amount'')"
    and "opt_member req_body ''phoneNumber'' = Str phoneNumber"
    and "generateAccessToken cfg w = (Inr accessToken, w1)"
  shows "stkpush_try cfg req_body w =
     (case axios
        \<lparr>http_method = POST,
         url = (if environment cfg = Some ''production''
                then ''https://api.safaricom.co.ke/mpesa/stkpush/v1/processrequest''
                else ''https://sandbox.safaricom.co.ke/mpesa/stkpush/v1/processrequest''),
         payload = Some (Obj
           [(''BusinessShortCode'', js_of (businessShortCode cfg)),
            (''Password'', Str (base64 (template (businessShortCode cfg) @
               template (passKey cfg) @ fst (generateTimestamp w1)))),
            (''Timestamp'', Str (fst (generateTimestamp w1))),
            (''TransactionType'', Str ''CustomerPayBillOnline''),
            (''Amount'', opt_member req_body ''amount''),
            (''PartyA'', Str (formattedPhone_of phoneNumber)),
            (''PartyB'', js_of (businessShortCode cfg)),
            (''PhoneNumber'', Str (formattedPhone_of phoneNumber)),
            (''CallBackURL'', js_of (callbackURL cfg)),
            (''AccountReference'',
               or_else (opt_member req_body ''accountReference'') (Str ''Food Order'')),
            (''TransactionDesc'',
               or_else (opt_member req_body ''description'') (Str ''Payment for food order''))]),
         authorization = Bearer accessToken\<rparr> (snd (generateTimestamp w1)) of
        (Inl error, w3) \<Rightarrow> (Inl error, w3)
      | (Inr data, w3) \<Rightarrow>
          (case member data ''CheckoutRequestID'' of
             Inl error \<Rightarrow> (Inl error, w3)
           | Inr checkoutRequestID \<Rightarrow>
               (Inr \<lparr>status = 200,
                     body = Json (Obj
                       [(''success'', Bool True),
                        (''message'', Str ''STK Push initiated successfully''),
                        (''data'', data),
                        (''checkoutRequestID'', checkoutRequestID)])\<rparr>,
                w3)))"
  using assms truthy_member [OF assms(1)]
  by (simp add: stkpush_try_def generatePassword_eq Let_def split del: if_split)

lemma stkpush_try_early:
  assumes "\<not> (truthy (opt_member req_body ''phoneNumber'') \<and> truthy (opt_member req_body ''amount'') \<and>
    is_Str (opt_member req_body ''phoneNumber''))"
  shows "snd (stkpush_try cfg req_body w) = w"
proof (cases "req_body = Undefined \<or> req_body = Null")
  case True
  then show ?thesis by (simp add: stkpush_try_nullish)
next
  case False
  show ?thesis
  proof (cases "truthy (opt_member req_body ''phoneNumber'') \<and> truthy (opt_member req_body ''amount'')")
    case True
    with assms show ?thesis by (simp add: stkpush_try_not_string)
  next
    case False
    with \<open>\<not> (req_body = Undefined \<or> req_body = Null)\<close> show ?thesis
      by (simp add: stkpush_try_invalid)
  qed
qed

lemma stkpush_calls:
  "calls (snd (stkpush cfg req_body w)) = calls (snd (stkpush_try cfg req_body w))"
  by (simp add: stkpush_def console_log_def split: prod.splits sum.splits)

lemma payment_status_calls:
  "calls (snd (payment_status cfg checkoutRequestID w)) =
   calls (snd (payment_status_try cfg checkoutRequestID w))"
  by (simp add: payment_status_def console_log_def split: prod.splits sum.splits)

lemma payment_status_try_token_error:
  "generateAccessToken cfg w = (Inl error, w1) \<Longrightarrow>
   payment_status_try cfg checkoutRequestID w = (Inl error, w1)"
  by (simp add: payment_status_try_def split del: if_split)

lemma payment_status_try_token:
  assumes "generateAccessToken cfg w = (Inr accessToken, w1)"
  shows "payment_status_try cfg checkoutRequestID w =
     (case axios
        \<lparr>http_method = POST,
         url = (if environment cfg = Some ''production''
                then ''https://api.safaricom.co.ke/mpesa/stkpushquery/v1/query''
                else ''https://sandbox.safaricom.co.ke/mpesa/stkpushquery/v1/query''),
         payload = Some (Obj
           [(''BusinessShortCode'', js_of (businessShortCode cfg)),
            (''Password'', Str (base64 (template (businessShortCode cfg) @
               template (passKey cfg) @ fst (generateTimestamp w1)))),
            (''Timestamp'', Str (fst (generateTimestamp (snd (generateTimestamp w1))))),
            (''CheckoutRequestID'', Str checkoutRequestID)]),
         authorization = Bearer accessToken\<rparr>
        (snd (generateTimestamp (snd (generateTimestamp w1)))) of
        (Inl error, w4) \<Rightarrow> (Inl error, w4)
      | (Inr data, w4) \<Rightarrow> (Inr \<lparr>status = 200, body = Json data\<rparr>, w4))"
proof -
  obtain ts1 w2 where g1: "generateTimestamp w1 = (ts1, w2)"
    by (cases "generateTimestamp w1")
  obtain ts2 w3 where g2: "generateTimestamp w2 = (ts2, w3)"
    by (cases "generateTimestamp w2")
  from assms g1 g2 show ?thesis
    by (simp add: payment_status_try_def generatePassword_def Let_def split del: if_split)
qed

section \<open>The payloads sent to the gateway\<close>

lemma stkpush_payload:
  assumes "rq \<in> set (sent w (snd (stkpush cfg req_body w)))" "http_method rq = POST"
  shows "\<exists>ts. payload_member rq ''Timestamp'' = Str ts \<and>
     payload_member rq ''Password'' =
       Str (base64 (template (businessShortCode cfg) @ template (passKey cfg) @ ts))"
proof (cases "truthy (opt_member req_body ''phoneNumber'') \<and>
    truthy (opt_member req_body ''amount'') \<and> is_Str (opt_member req_body ''phoneNumber'')")
  case False
  from stkpush_try_early [OF this] assms(1) show ?thesis
    by (simp add: sent_def stkpush_calls)
next
  case True
  then obtain phoneNumber where p: "opt_member req_body ''phoneNumber'' = Str phoneNumber"
    using is_Str_cases by blast
  obtain r where r: "http_method r = GET"
    "calls (snd (generateAccessToken cfg w)) = calls w @ [r]"
    using generateAccessToken_sent by blast
  obtain res w1 where tok: "generateAccessToken cfg w = (res, w1)"
    by (cases "generateAccessToken cfg w")
  with r have w1: "calls w1 = calls w @ [r]" by simp
  show ?thesis
  proof (cases res)
    case (Inl error)
    with True p tok have "stkpush_try cfg req_body w = (Inl error, w1)"
      by (simp add: stkpush_try_token_error)
    with assms r(1) w1 show ?thesis
      by (auto simp: sent_def stkpush_calls)
  next
    case (Inr accessToken)
    with True p tok have "stkpush_try cfg req_body w = (case axios
        \<lparr>http_method = POST,
         url = (if environment cfg = Some ''production''
                then ''https://api.safaricom.co.ke/mpesa/stkpush/v1/processrequest''
                else ''https://sandbox.safaricom.co.ke/mpesa/stkpush/v1/processrequest''),
         payload = Some (Obj
           [(''BusinessShortCode'', js_of (businessShortCode cfg)),
            (''Password'', Str (base64 (template (businessShortCode cfg) @
               template (passKey cfg) @ fst (generateTimestamp w1)))),
            (''Timestamp'', Str (fst (generateTimestamp w1))),
            (''TransactionType'', Str ''CustomerPayBillOnline''),
            (''Amount'', opt_member req_body ''amount''),
            (''PartyA'', Str (formattedPhone_of phoneNumber)),
            (''PartyB'', js_of (businessShortCode cfg)),
            (''PhoneNumber'', Str (formattedPhone_of phoneNumber)),
            (''CallBackURL'', js_of (callbackURL cfg)),
            (''AccountReference'',
               or_else (opt_member req_body ''accountReference'') (Str ''Food Order'')),
            (''TransactionDesc'',
               or_else (opt_member req_body ''description'') (Str ''Payment for food order''))]),
         authorization = Bearer accessToken\<rparr> (snd (generateTimestamp w1)) of
        (Inl error, w3) \<Rightarrow> (Inl error, w3)
      | (Inr data, w3) \<Rightarrow>
          (case member data ''CheckoutRequestID'' of
             Inl error \<Rightarrow> (Inl error, w3)
           | Inr checkoutRequestID \<Rightarrow>
               (Inr \<lparr>status = 200,
                     body = Json (Obj
                       [(''success'', Bool True),
                        (''message'', Str ''STK Push initiated successfully''),
                        (''data'', data),
                        (''checkoutRequestID'', checkoutRequestID)])\<rparr>,
                w3)))"
      by (simp add: stkpush_try_token)
    with assms r(1) w1 show ?thesis
      by (auto simp: sent_def stkpush_calls axios_def generateTimestamp_world
          payload_member_def split: sum.splits split del: if_split)
  qed
qed

lemma payment_status_payload:
  assumes "rq \<in> set (sent w (snd (payment_status cfg checkoutRequestID w)))" "http_method rq = POST"
  shows "payload_member rq ''Password'' =
       Str (base64 (template (businessShortCode cfg) @ template (passKey cfg) @
         fst (generateTimestamp w))) \<and>
     payload_member rq ''Timestamp'' = Str (fst (generateTimestamp (snd (generateTimestamp w))))"
proof -
  obtain r where r: "http_method r = GET"
    "calls (snd (generateAccessToken cfg w)) = calls w @ [r]"
    using generateAccessToken_sent by blast
  obtain res w1 where tok: "generateAccessToken cfg w = (res, w1)"
    by (cases "generateAccessToken cfg w")
  with r have w1: "calls w1 = calls w @ [r]" by simp
  from tok generateAccessToken_ticks [of cfg w] have c: "clock w1 = clock w" "ticks w1 = ticks w"
    by simp_all
  then have t1: "fst (generateTimestamp w1) = fst (generateTimestamp w)"
    by (rule generateTimestamp_clock)
  from c have t2: "fst (generateTimestamp (snd (generateTimestamp w1))) =
      fst (generateTimestamp (snd (generateTimestamp w)))"
    by (intro generateTimestamp_clock) (simp_all add: generateTimestamp_world)
  show ?thesis
  proof (cases res)
    case (Inl error)
    with tok have "payment_status_try cfg checkoutRequestID w = (Inl error, w1)"
      by (simp add: payment_status_try_token_error)
    with assms r(1) w1 show ?thesis
      by (auto simp: sent_def payment_status_calls)
  next
    case (Inr accessToken)
    with tok assms r(1) w1 show ?thesis
      unfolding t1 [symmetric] t2 [symmetric]
      by (auto simp: payment_status_try_token sent_def payment_status_calls axios_def
          generateTimestamp_world payload_member_def split: sum.splits split del: if_split)
  qed
qed

text \<open>What the two handlers send on the example clock.\<close>

lemma payment_status_accepting:
  "sent accepting_world (snd (payment_status sandbox_config ''ws_CO_1'' accepting_world)) =
     [\<lparr>http_method = GET,
       url = ''https://sandbox.safaricom.co.ke/oauth/v1/generate?grant_type=client_credentials'',
       payload = None, authorization = Basic (base64 ''key:secret'')\<rparr>,
      \<lparr>http_method = POST,
       url = ''https://sandbox.safaricom.co.ke/mpesa/stkpushquery/v1/query'',
       payload = Some (Obj
         [(''BusinessShortCode'', Str ''174379''),
          (''Password'', Str (base64 (''174379'' @ ''bfb279f9'' @ ''20261231235959''))),
          (''Timestamp'', Str ''20270101000000''),
          (''CheckoutRequestID'', Str ''ws_CO_1'')]),
       authorization = Bearer (Str ''t0k3n'')\<rparr>]"
  by code_simp

lemma stkpush_accepting:
  "sent accepting_world (snd (stkpush sandbox_config valid_request accepting_world)) =
     [\<lparr>http_method = GET,
       url = ''https://sandbox.safaricom.co.ke/oauth/v1/generate?grant_type=client_credentials'',
       payload = None, authorization = Basic (base64 ''key:secret'')\<rparr>,
      \<lparr>http_method = POST,
       url = ''https://sandbox.safaricom.co.ke/mpesa/stkpush/v1/processrequest'',
       payload = Some (Obj
         [(''BusinessShortCode'', Str ''174379''),
          (''Password'', Str (base64 (''174379'' @ ''bfb279f9'' @ ''20261231235959''))),
          (''Timestamp'', Str ''20261231235959''),
          (''TransactionType'', Str ''CustomerPayBillOnline''),
          (''Amount'', Num (Finite 100)),
          (''PartyA'', Str ''254712345678''),
          (''PartyB'', Str ''174379''),
          (''PhoneNumber'', Str ''254712345678''),
          (''CallBackURL'', Str ''https://example.com/api/mpesa/callback''),
          (''AccountReference'', Str ''Food Order''),
          (''TransactionDesc'', Str ''Payment for food order'')]),
       authorization = Bearer (Str ''t0k3n'')\<rparr>]"
  by code_simp

text \<open>
  Claim C9. The status query reads the clock twice: the password of its payload embeds the
  timestamp of the first read, and the \<^verbatim>\<open>Timestamp\<close> member is the timestamp of the second
  read. For a clock on which a second passes between the two reads, the submitted
  \<^verbatim>\<open>Timestamp\<close> differs from the one inside the submitted password. The payload of a push
  submission always carries the one timestamp its password embeds.
\<close>

theorem status_query_reads_clock_twice:
  "(\<forall>rq \<in> set (sent w (snd (payment_status cfg checkoutRequestID w))). http_method rq = POST \<longrightarrow>
      payload_member rq ''Password'' =
        Str (base64 (template (businessShortCode cfg) @ template (passKey cfg) @
          fst (generateTimestamp w))) \<and>
      payload_member rq ''Timestamp'' =
        Str (fst (generateTimestamp (snd (generateTimestamp w))))) \<and>
   (\<exists>cfg' checkoutRequestID' w'.
      \<exists>rq \<in> set (sent w' (snd (payment_status cfg' checkoutRequestID' w'))).
      \<exists>embedded submitted. embedded \<noteq> submitted \<and>
        payload_member rq ''Password'' =
          Str (base64 (template (businessShortCode cfg') @ template (passKey cfg') @ embedded)) \<and>
        payload_member rq ''Timestamp'' = Str submitted) \<and>
   (\<forall>rq \<in> set (sent w (snd (stkpush cfg req_body w))). http_method rq = POST \<longrightarrow>
      (\<exists>timestamp. payload_member rq ''Timestamp'' = Str timestamp \<and>
         payload_member rq ''Password'' =
           Str (base64 (template (businessShortCode cfg) @ template (passKey cfg) @ timestamp))))"
proof (intro conjI ballI impI)
  fix rq
  assume "rq \<in> set (sent w (snd (payment_status cfg checkoutRequestID w)))" "http_method rq = POST"
  from payment_status_payload [OF this]
  show "payload_member rq ''Password'' =
        Str (base64 (template (businessShortCode cfg) @ template (passKey cfg) @
          fst (generateTimestamp w)))"
    and "payload_member rq ''Timestamp'' =
        Str (fst (generateTimestamp (snd (generateTimestamp w))))"
    by simp_all
next
  fix rq
  assume "rq \<in> set (sent w (snd (stkpush cfg req_body w)))" "http_method rq = POST"
  then show "\<exists>timestamp. payload_member rq ''Timestamp'' = Str timestamp \<and>
         payload_member rq ''Password'' =
           Str (base64 (template (businessShortCode cfg) @ template (passKey cfg) @ timestamp))"
    by (rule stkpush_payload)
next
  let ?rq = "last (sent accepting_world
    (snd (payment_status sandbox_config ''ws_CO_1'' accepting_world)))"
  have "?rq \<in> set (sent accepting_world
      (snd (payment_status sandbox_config ''ws_CO_1'' accepting_world)))"
    by (simp add: payment_status_accepting)
  moreover have "''20261231235959'' \<noteq> ''20270101000000''" by simp
  moreover have "payload_member ?rq ''Password'' =
      Str (base64 (template (businessShortCode sandbox_config) @
        template (passKey sandbox_config) @ ''20261231235959''))"
    by (simp add: payment_status_accepting payload_member_def sandbox_config_fields)
  moreover have "payload_member ?rq ''Timestamp'' = Str ''20270101000000''"
    by (simp add: payment_status_accepting payload_member_def)
  ultimately have "\<exists>rq \<in> set (sent accepting_world
      (snd (payment_status sandbox_config ''ws_CO_1'' accepting_world))).
      \<exists>embedded submitted. embedded \<noteq> submitted \<and>
        payload_member rq ''Password'' =
          Str (base64 (template (businessShortCode sandbox_config) @
            template (passKey sandbox_config) @ embedded)) \<and>
        payload_member rq ''Timestamp'' = Str submitted"
    by (intro bexI [of _ ?rq] exI [of _ "''20261231235959''"] exI [of _ "''20270101000000''"]
        conjI)
  then show "\<exists>cfg' checkoutRequestID' w'.
      \<exists>rq \<in> set (sent w' (snd (payment_status cfg' checkoutRequestID' w'))).
      \<exists>embedded submitted. embedded \<noteq> submitted \<and>
        payload_member rq ''Password'' =
          Str (base64 (template (businessShortCode cfg') @ template (passKey cfg') @ embedded)) \<and>
        payload_member rq ''Timestamp'' = Str submitted"
    by (intro exI [of _ sandbox_config] exI [of _ "''ws_CO_1''"] exI [of _ accepting_world])
qed

theorem status_query_reads_clock_twice_witness:
  "(let rq = last (sent accepting_world
      (snd (payment_status sandbox_config ''ws_CO_1'' accepting_world)))
    in http_method rq = POST \<and>
       payload_member rq ''Password'' =
         Str (base64 (''174379'' @ ''bfb279f9'' @ ''20261231235959'')) \<and>
       payload_member rq ''Timestamp'' = Str ''20270101000000'') \<and>
   (let rq = last (sent accepting_world
      (snd (stkpush sandbox_config valid_request accepting_world)))
    in http_method rq = POST \<and>
       (\<exists>timestamp. payload_member rq ''Timestamp'' = Str timestamp \<and>
          payload_member rq ''Password'' =
            Str (base64 (''174379'' @ ''bfb279f9'' @ timestamp))))"
proof -
  let ?q = "last (sent accepting_world
      (snd (payment_status sandbox_config ''ws_CO_1'' accepting_world)))"
  let ?p = "last (sent accepting_world
      (snd (stkpush sandbox_config valid_request accepting_world)))"
  note claim = status_query_reads_clock_twice
    [of accepting_world sandbox_config "''ws_CO_1''" valid_request]
  have q: "?q \<in> set (sent accepting_world
      (snd (payment_status sandbox_config ''ws_CO_1'' accepting_world)))" "http_method ?q = POST"
    by (simp_all add: payment_status_accepting)
  have p: "?p \<in> set (sent accepting_world
      (snd (stkpush sandbox_config valid_request accepting_world)))" "http_method ?p = POST"
    by (simp_all add: stkpush_accepting)
  from claim q have
    "payload_member ?q ''Password'' =
        Str (base64 (template (businessShortCode sandbox_config) @
          template (passKey sandbox_config) @ fst (generateTimestamp accepting_world))) \<and>
     payload_member ?q ''Timestamp'' =
        Str (fst (generateTimestamp (snd (generateTimestamp accepting_world))))"
    by (elim conjE) (drule bspec [of _ _ ?q], assumption, simp)
  moreover from claim p have
    "\<exists>timestamp. payload_member ?p ''Timestamp'' = Str timestamp \<and>
       payload_member ?p ''Password'' =
         Str (base64 (template (businessShortCode sandbox_config) @
           template (passKey sandbox_config) @ timestamp))"
    by (elim conjE) (drule bspec [of _ _ ?p], assumption, simp)
  ultimately show ?thesis
    using q(2) p(2)
    by (simp only: Let_def timestamp_accepting sandbox_config_fields template.simps)
qed

section \<open>Validation of a push request\<close>

lemma stkpush_try_status:
  assumes "truthy (opt_member req_body ''phoneNumber'')" "truthy (opt_member req_body ''amount'')"
    and "stkpush_try cfg req_body w = (Inr res, w')"
  shows "status res = 200"
proof (cases "is_Str (opt_member req_body ''phoneNumber'')")
  case False
  with assms show ?thesis by (simp add: stkpush_try_not_string)
next
  case True
  then obtain phoneNumber where p: "opt_member req_body ''phoneNumber'' = Str phoneNumber"
    using is_Str_cases by blast
  obtain tok w1 where tok: "generateAccessToken cfg w = (tok, w1)"
    by (cases "generateAccessToken cfg w")
  show ?thesis
  proof (cases tok)
    case (Inl error)
    with assms p tok show ?thesis by (simp add: stkpush_try_token_error)
  next
    case (Inr accessToken)
    with assms(3) stkpush_try_token [OF assms(1,2) p, of cfg w accessToken w1] tok
    show ?thesis
      by (auto split: sum.splits prod.splits split del: if_split)
  qed
qed

lemma stkpush_accepted:
  assumes "truthy (opt_member req_body ''phoneNumber'')" "truthy (opt_member req_body ''amount'')"
  shows "status (fst (stkpush cfg req_body w)) \<noteq> 400"
proof -
  obtain res w' where r: "stkpush_try cfg req_body w = (res, w')"
    by (cases "stkpush_try cfg req_body w")
  show ?thesis
  proof (cases res)
    case (Inl error)
    with r show ?thesis by (simp add: stkpush_def)
  next
    case (Inr response)
    with r stkpush_try_status [OF assms, of cfg w response w'] show ?thesis
      by (simp add: stkpush_def)
  qed
qed

text \<open>
  Claim C1, as the code has it. A request whose \<^verbatim>\<open>phoneNumber\<close> or \<^verbatim>\<open>amount\<close> is absent
  or falsy (\<^verbatim>\<open>null\<close>, \<^verbatim>\<open>false\<close>, \<^verbatim>\<open>0\<close>, \<^verbatim>\<open>NaN\<close>, the empty string) is answered
  with status 400 and the world is left as it was: no token is fetched and nothing is
  submitted. These are the only requests answered with 400; the sign of the amount is not
  inspected.
\<close>

theorem stkpush_validation:
  "req_body \<noteq> Undefined \<and> req_body \<noteq> Null \<longrightarrow>
   (\<not> truthy (opt_member req_body ''phoneNumber'') \<or> \<not> truthy (opt_member req_body ''amount'')
      \<longrightarrow> stkpush cfg req_body w = (validation_error, w)) \<and>
   (status (fst (stkpush cfg req_body w)) = 400 \<longleftrightarrow>
      \<not> truthy (opt_member req_body ''phoneNumber'') \<or> \<not> truthy (opt_member req_body ''amount''))"
proof (intro impI conjI)
  assume b: "req_body \<noteq> Undefined \<and> req_body \<noteq> Null"
  have rejected: "stkpush cfg req_body w = (validation_error, w)"
    if "\<not> truthy (opt_member req_body ''phoneNumber'') \<or> \<not> truthy (opt_member req_body ''amount'')"
    using b that by (simp add: stkpush_def stkpush_try_invalid)
  then show "stkpush cfg req_body w = (validation_error, w)"
    if "\<not> truthy (opt_member req_body ''phoneNumber'') \<or> \<not> truthy (opt_member req_body ''amount'')"
    using that .
  show "status (fst (stkpush cfg req_body w)) = 400 \<longleftrightarrow>
      \<not> truthy (opt_member req_body ''phoneNumber'') \<or> \<not> truthy (opt_member req_body ''amount'')"
    using rejected stkpush_accepted [of req_body cfg w]
    by (auto simp: validation_error_def)
qed

theorem stkpush_validation_witness:
  "stkpush sandbox_config (Obj [(''phoneNumber'', Str ''0712345678'')]) accepting_world =
     (validation_error, accepting_world) \<and>
   stkpush sandbox_config (Obj [(''phoneNumber'', Str ''0712345678''), (''amount'', Num (Finite 0))])
     accepting_world = (validation_error, accepting_world) \<and>
   status (fst (stkpush sandbox_config valid_request accepting_world)) \<noteq> 400"
  using stkpush_validation [of "Obj [(''phoneNumber'', Str ''0712345678'')]" sandbox_config accepting_world]
    stkpush_validation [of "Obj [(''phoneNumber'', Str ''0712345678''), (''amount'', Num (Finite 0))]"
      sandbox_config accepting_world]
    stkpush_validation [of valid_request sandbox_config accepting_world]
  by (simp add: valid_request_def)

text \<open>
  Claim C1 as stated fails on a negative amount: the request passes validation, the token
  is fetched, the payload is submitted, and the answer is 200.
\<close>

theorem negative_amount_counterexample:
  "status (fst (stkpush sandbox_config negative_amount_request accepting_world)) = 200 \<and>
   length (calls (snd (stkpush sandbox_config negative_amount_request accepting_world))) = 2"
  by code_simp

section \<open>A phone number that is not a string\<close>

text \<open>
  Claim C10. A request whose \<^verbatim>\<open>phoneNumber\<close> is present and truthy but not a string, a
  JSON number for example, passes validation; the call of \<^verbatim>\<open>startsWith\<close> throws, and the
  answer is status 500 with \<^verbatim>\<open>error\<close> and \<^verbatim>\<open>details\<close>, not 400. Nothing but the console
  changes: the gateway is never called.
\<close>

theorem stkpush_phone_not_string:
  "truthy (opt_member req_body ''phoneNumber'') \<and> \<not> is_Str (opt_member req_body ''phoneNumber'') \<and>
   truthy (opt_member req_body ''amount'') \<longrightarrow>
   stkpush cfg req_body w =
     (\<lparr>status = 500,
       body = Json (Obj [(''error'', Str ''Failed to initiate STK Push''),
                         (''details'', Str ''phoneNumber.startsWith is not a function'')])\<rparr>,
      console_log (Error ''STK Push error:'' (Str ''phoneNumber.startsWith is not a function'')) w)"
  by (simp add: stkpush_def stkpush_try_not_string)

theorem stkpush_phone_not_string_witness:
  "fst (stkpush sandbox_config numeric_phone_request accepting_world) =
     \<lparr>status = 500,
      body = Json (Obj [(''error'', Str ''Failed to initiate STK Push''),
                        (''details'', Str ''phoneNumber.startsWith is not a function'')])\<rparr> \<and>
   calls (snd (stkpush sandbox_config numeric_phone_request accepting_world)) = []"
  using stkpush_phone_not_string [of numeric_phone_request sandbox_config accepting_world]
  by (simp add: numeric_phone_request_def console_log_def accepting_world_def)

section \<open>Upstream failures\<close>

text \<open>
  Claim C6. The gateway answers the status query for an unknown identifier with an error
  body. The status handler answers 500 with the fixed body \<^verbatim>\<open>{error: 'Failed to check
  payment status'}\<close>: the upstream body reaches the console only, not the client.
\<close>

theorem payment_status_drops_upstream_details:
  "fst (payment_status sandbox_config ''ws_CO_unknown'' rejecting_world) =
     \<lparr>status = 500, body = Json (Obj [(''error'', Str ''Failed to check payment status'')])\<rparr> \<and>
   console (snd (payment_status sandbox_config ''ws_CO_unknown'' rejecting_world)) =
     [Error ''Payment status check error:'' upstream_error]"
  by code_simp

text \<open>The push handler, on the same gateway, forwards the upstream body as \<^verbatim>\<open>details\<close>.\<close>

lemma stkpush_forwards_upstream_details:
  "fst (stkpush sandbox_config valid_request rejecting_world) =
     \<lparr>status = 500,
      body = Json (Obj [(''error'', Str ''Failed to initiate STK Push''),
                        (''details'', upstream_error)])\<rparr>"
  by code_simp

section \<open>The callback handler by cases\<close>

lemma member_readable: "readable v \<Longrightarrow> member v n = Inr (opt_member v n)"
  by (cases v) (simp_all add: readable_def)

lemma find_Name_readable:
  "list_all readable items \<Longrightarrow>
   find_Name n items =
     Inr (case find (\<lambda>item. opt_member item ''Name'' = Str n) items of
            None \<Rightarrow> Undefined | Some item \<Rightarrow> item)"
  by (induction items) (simp_all add: member_readable)

lemma metadata_find_readable:
  "list_all readable items \<Longrightarrow> metadata_find (Arr items) n = Inr (metadata_value items n)"
  by (simp add: find_Name_readable metadata_value_def split: option.splits)

lemma callback_failed:
  assumes "member callbackData ''Body'' = Inr Body" "member Body ''stkCallback'' = Inr stkCallback"
    and "opt_member stkCallback ''ResultCode'' \<noteq> Num (Finite 0)"
  shows "callback callbackData w =
     (acknowledgment,
      console_log (Log ''Payment failed:'' (opt_member stkCallback ''ResultDesc''))
        (received callbackData w))"
  using assms by (simp add: callback_def callback_try_def acknowledgment_def received_def)

lemma callback_successful:
  assumes "member callbackData ''Body'' = Inr Body" "member Body ''stkCallback'' = Inr stkCallback"
    and "opt_member stkCallback ''ResultCode'' = Num (Finite 0)"
    and "callback_metadata stkCallback = Arr items" "list_all readable items"
  shows "callback callbackData w =
     (acknowledgment,
      console_log (Log ''Payment successful:'' (Obj
        [(''amount'', metadata_value items ''Amount''),
         (''mpesaReceiptNumber'', metadata_value items ''MpesaReceiptNumber''),
         (''phoneNumber'', metadata_value items ''PhoneNumber''),
         (''transactionDate'', metadata_value items ''TransactionDate''),
         (''accountReference'', opt_member stkCallback ''MerchantRequestID'')]))
        (received callbackData w))"
proof -
  from assms(3) obtain kvs where "stkCallback = Obj kvs"
    using opt_member_Obj [of stkCallback "''ResultCode''"] by auto
  then have "truthy stkCallback" by simp
  with assms show ?thesis
    by (simp add: callback_def callback_try_def acknowledgment_def received_def
        metadata_find_readable callback_metadata_def Let_def del: metadata_find.simps)
qed

lemma callback_try_stateless:
  "callback_try callbackData w =
     (fst (callback_try callbackData w'),
      w\<lparr>console := console w @ printed w' (snd (callback_try callbackData w'))\<rparr>)"
  by (simp add: callback_try_def console_log_def printed_def Let_def split: sum.splits)

lemma callback_stateless:
  "callback callbackData w =
     (fst (callback callbackData w'),
      w\<lparr>console := console w @ printed w' (snd (callback callbackData w'))\<rparr>)"
proof -
  obtain res w1 where w1: "callback_try callbackData w' = (res, w1)"
    by (cases "callback_try callbackData w'")
  define entries where "entries = printed w' w1"
  from w1 callback_try_stateless [of callbackData w w'] have w:
    "callback_try callbackData w = (res, w\<lparr>console := console w @ entries\<rparr>)"
    by (simp add: entries_def)
  from w1 callback_try_stateless [of callbackData w' w'] have
    "w1 = w'\<lparr>console := console w' @ entries\<rparr>" by (simp add: entries_def)
  from arg_cong [OF this, of console] have c: "console w1 = console w' @ entries" by simp
  show ?thesis
  proof (cases res)
    case (Inl error)
    with w w1 c show ?thesis by (simp add: callback_def console_log_def printed_def)
  next
    case (Inr res')
    with w w1 c show ?thesis by (simp add: callback_def printed_def)
  qed
qed

lemma readable_Body:
  assumes "readable (opt_member callbackData ''Body'')"
  shows "member callbackData ''Body'' = Inr (opt_member callbackData ''Body'')"
    and "member (opt_member callbackData ''Body'') ''stkCallback'' = Inr (envelope_of callbackData)"
proof -
  from assms obtain kvs where "callbackData = Obj kvs"
    using opt_member_Obj [of callbackData "''Body''"] by (auto simp: readable_def)
  then show "member callbackData ''Body'' = Inr (opt_member callbackData ''Body'')" by simp
  from assms show
    "member (opt_member callbackData ''Body'') ''stkCallback'' = Inr (envelope_of callbackData)"
    by (simp add: member_readable envelope_of_def)
qed

lemma unreadable_Body:
  assumes "\<not> readable (opt_member callbackData ''Body'')"
  shows "fst (callback callbackData w) = error_acknowledgment"
proof (cases "member callbackData ''Body''")
  case (Inl error)
  then show ?thesis by (simp add: callback_def callback_try_def error_acknowledgment_def)
next
  case (Inr Body)
  then have "Body = opt_member callbackData ''Body''"
    by (cases callbackData) auto
  with assms have "\<exists>error. member Body ''stkCallback'' = Inl error"
    by (cases Body) (auto simp: readable_def)
  with Inr show ?thesis
    by (auto simp: callback_def callback_try_def error_acknowledgment_def)
qed

lemma envelope_shape_readable:
  assumes "envelope_shape callbackData"
  shows "readable (opt_member callbackData ''Body'')"
    and "\<exists>items. callback_metadata (envelope_of callbackData) = Arr items \<and> list_all readable items"
proof -
  from assms have obj: "is_Obj (envelope_of callbackData)"
    by (simp add: envelope_shape_def envelope_of_def Let_def)
  then have "envelope_of callbackData \<noteq> Undefined" by auto
  then obtain kvs where "opt_member callbackData ''Body'' = Obj kvs"
    using opt_member_Obj [of "opt_member callbackData ''Body''" "''stkCallback''"]
    by (auto simp: envelope_of_def)
  then show "readable (opt_member callbackData ''Body'')" by (simp add: readable_def)
  define meta where "meta = opt_member (envelope_of callbackData) ''CallbackMetadata''"
  from assms have "meta = Undefined \<or> is_Obj meta \<and> is_item_list (opt_member meta ''Item'')"
    by (simp add: envelope_shape_def envelope_of_def Let_def meta_def)
  then show "\<exists>items. callback_metadata (envelope_of callbackData) = Arr items \<and>
      list_all readable items"
  proof
    assume "meta = Undefined"
    then show ?thesis by (simp add: callback_metadata_def meta_def [symmetric] or_else_def)
  next
    assume "is_Obj meta \<and> is_item_list (opt_member meta ''Item'')"
    then obtain items where items: "opt_member meta ''Item'' = Arr items" "list_all is_Obj items"
      by (cases "opt_member meta ''Item''") auto
    have "is_Obj v \<Longrightarrow> readable v" for v by (cases v) (simp_all add: readable_def)
    with items(2) have "list_all readable items" by (simp add: list_all_iff)
    with items(1) show ?thesis
      by (simp add: callback_metadata_def meta_def [symmetric] or_else_def)
  qed
qed

text \<open>When a lookup throws, and the answer on the success branch.\<close>

lemma find_Name_throws:
  "(\<exists>error. find_Name n items = Inl error) \<longleftrightarrow>
   \<not> list_all readable (takeWhile (\<lambda>item. opt_member item ''Name'' \<noteq> Str n) items)"
proof (induction items)
  case Nil
  then show ?case by simp
next
  case (Cons item items)
  show ?case
  proof (cases "readable item")
    case True
    with Cons show ?thesis by (simp add: member_readable)
  next
    case False
    then have "\<exists>error. member item ''Name'' = Inl error" "opt_member item ''Name'' = Undefined"
      by (cases item; simp add: readable_def)+
    with False show ?thesis by auto
  qed
qed

lemma metadata_find_throws:
  "(\<exists>error. metadata_find metadata n = Inl error) \<longleftrightarrow> lookup_throws metadata n"
proof (cases metadata)
  case (Arr items)
  with find_Name_throws [of n items] show ?thesis
    by (auto split: sum.splits)
qed simp_all

lemma callback_success_branch:
  assumes "readable (opt_member callbackData ''Body'')"
    and "opt_member (envelope_of callbackData) ''ResultCode'' = Num (Finite 0)"
  shows "fst (callback callbackData w) =
     (if \<exists>n \<in> set metadata_names. lookup_throws (callback_metadata (envelope_of callbackData)) n
      then error_acknowledgment else acknowledgment)"
proof -
  note b = readable_Body [OF assms(1)]
  from assms(2) obtain kvs where "envelope_of callbackData = Obj kvs"
    using opt_member_Obj [of "envelope_of callbackData" "''ResultCode''"] by auto
  then have t: "truthy (envelope_of callbackData)" by simp
  define metadata where "metadata = callback_metadata (envelope_of callbackData)"
  have l: "lookup_throws metadata n \<longleftrightarrow> (\<exists>error. metadata_find metadata n = Inl error)" for n
    by (simp add: metadata_find_throws)
  from b t assms(2) show ?thesis
    unfolding metadata_def [symmetric]
    by (auto simp: callback_def callback_try_def Let_def metadata_names_def l
        callback_metadata_def [symmetric] metadata_def [symmetric]
        acknowledgment_def error_acknowledgment_def
        simp del: metadata_find.simps split: sum.splits)
qed

text \<open>The example bodies.\<close>

lemma success_envelope_facts:
  "readable (opt_member success_envelope ''Body'')"
  "opt_member (envelope_of success_envelope) ''ResultCode'' = Num (Finite 0)"
  "opt_member (envelope_of success_envelope) ''MerchantRequestID'' = Str ''29115-34620561-1''"
  "callback_metadata (envelope_of success_envelope) = Arr success_items"
  "list_all readable success_items"
  by (simp_all add: envelope_of_def success_envelope_def success_items_def readable_def
      callback_metadata_def or_else_def)

lemma success_items_values:
  "metadata_value success_items ''Amount'' = Num (Finite 500)"
  "metadata_value success_items ''MpesaReceiptNumber'' = Str ''ABC123''"
  "metadata_value success_items ''PhoneNumber'' = Undefined"
  "metadata_value success_items ''TransactionDate'' = Undefined"
  by (simp_all add: metadata_value_def success_items_def)

lemma cancelled_envelope_facts:
  "readable (opt_member cancelled_envelope ''Body'')"
  "opt_member (envelope_of cancelled_envelope) ''ResultCode'' = Num (Finite 1032)"
  "opt_member (envelope_of cancelled_envelope) ''ResultDesc'' = Str ''Request cancelled by user''"
  by (simp_all add: envelope_of_def cancelled_envelope_def readable_def)

section \<open>Classification of a callback\<close>

text \<open>
  Claim C3. For a body that carries an envelope, the payment is processed as successful
  only if the envelope's \<^verbatim>\<open>ResultCode\<close> is the number 0, and it is then never reported
  as failed. Every other \<^verbatim>\<open>ResultCode\<close>, an absent one included, is reported as a
  failure whose reason is the envelope's \<^verbatim>\<open>ResultDesc\<close>, whatever the metadata.
\<close>

theorem callback_classification:
  "readable (opt_member callbackData ''Body'') \<longrightarrow>
   (opt_member (envelope_of callbackData) ''ResultCode'' \<noteq> Num (Finite 0) \<longrightarrow>
      callback callbackData w =
        (acknowledgment,
         console_log (Log ''Payment failed:'' (opt_member (envelope_of callbackData) ''ResultDesc''))
           (received callbackData w))) \<and>
   (opt_member (envelope_of callbackData) ''ResultCode'' = Num (Finite 0) \<longrightarrow>
      Log ''Payment failed:'' reason \<notin> set (printed w (snd (callback callbackData w))) \<and>
      (callback_metadata (envelope_of callbackData) = Arr items \<and> list_all readable items \<longrightarrow>
         (\<exists>paymentData. printed w (snd (callback callbackData w)) =
            [Log ''Mpesa Callback Received:'' callbackData,
             Log ''Payment successful:'' paymentData]))) \<and>
   (Log ''Payment successful:'' paymentData \<in> set (printed w (snd (callback callbackData w))) \<longrightarrow>
      opt_member (envelope_of callbackData) ''ResultCode'' = Num (Finite 0))"
proof (intro impI conjI)
  assume r: "readable (opt_member callbackData ''Body'')"
  note b = readable_Body [OF r]
  show "callback callbackData w =
        (acknowledgment,
         console_log (Log ''Payment failed:'' (opt_member (envelope_of callbackData) ''ResultDesc''))
           (received callbackData w))"
    if "opt_member (envelope_of callbackData) ''ResultCode'' \<noteq> Num (Finite 0)"
    using callback_failed [OF b that] .
  show "opt_member (envelope_of callbackData) ''ResultCode'' = Num (Finite 0)"
    if "Log ''Payment successful:'' paymentData \<in> set (printed w (snd (callback callbackData w)))"
  proof (rule ccontr)
    assume "opt_member (envelope_of callbackData) ''ResultCode'' \<noteq> Num (Finite 0)"
    from callback_failed [OF b this, of w] that show False
      by (simp add: printed_def console_log_def received_def)
  qed
  show "\<exists>paymentData. printed w (snd (callback callbackData w)) =
            [Log ''Mpesa Callback Received:'' callbackData,
             Log ''Payment successful:'' paymentData]"
    if "opt_member (envelope_of callbackData) ''ResultCode'' = Num (Finite 0)"
      "callback_metadata (envelope_of callbackData) = Arr items \<and> list_all readable items"
    using callback_successful [OF b that(1), of items w] that(2)
    by (simp add: printed_def console_log_def received_def)
  show "Log ''Payment failed:'' reason \<notin> set (printed w (snd (callback callbackData w)))"
    if rc: "opt_member (envelope_of callbackData) ''ResultCode'' = Num (Finite 0)"
  proof -
    from rc obtain kvs where "envelope_of callbackData = Obj kvs"
      using opt_member_Obj [of "envelope_of callbackData" "''ResultCode''"] by auto
    then have "truthy (envelope_of callbackData)" by simp
    with b rc show ?thesis
      by (simp add: callback_def callback_try_def printed_def console_log_def Let_def
          split: sum.splits)
  qed
qed

theorem callback_classification_witness:
  "callback cancelled_envelope accepting_world =
     (acknowledgment,
      console_log (Log ''Payment failed:'' (Str ''Request cancelled by user''))
        (received cancelled_envelope accepting_world)) \<and>
   (\<exists>paymentData. printed accepting_world (snd (callback success_envelope accepting_world)) =
      [Log ''Mpesa Callback Received:'' success_envelope,
       Log ''Payment successful:'' paymentData])"
  using callback_classification [of cancelled_envelope accepting_world]
    callback_classification [of success_envelope accepting_world _ success_items]
  by (simp add: success_envelope_facts cancelled_envelope_facts)

section \<open>The reconciled payment\<close>

text \<open>
  Claim C7. For a callback with \<^verbatim>\<open>ResultCode\<close> 0, the payment data has the envelope's
  \<^verbatim>\<open>MerchantRequestID\<close> as its \<^verbatim>\<open>accountReference\<close>, and \<^verbatim>\<open>Amount\<close>,
  \<^verbatim>\<open>MpesaReceiptNumber\<close>, \<^verbatim>\<open>PhoneNumber\<close> and \<^verbatim>\<open>TransactionDate\<close> are looked up in
  the metadata list by name; a name that the list does not hold gives \<^verbatim>\<open>undefined\<close>,
  not an error.
\<close>

theorem callback_payment_data:
  "readable (opt_member callbackData ''Body'') \<and>
   opt_member (envelope_of callbackData) ''ResultCode'' = Num (Finite 0) \<and>
   callback_metadata (envelope_of callbackData) = Arr items \<and> list_all readable items \<longrightarrow>
   callback callbackData w =
     (acknowledgment,
      console_log (Log ''Payment successful:'' (Obj
        [(''amount'', metadata_value items ''Amount''),
         (''mpesaReceiptNumber'', metadata_value items ''MpesaReceiptNumber''),
         (''phoneNumber'', metadata_value items ''PhoneNumber''),
         (''transactionDate'', metadata_value items ''TransactionDate''),
         (''accountReference'', opt_member (envelope_of callbackData) ''MerchantRequestID'')]))
        (received callbackData w)) \<and>
   ((\<forall>item \<in> set items. opt_member item ''Name'' \<noteq> Str n) \<longrightarrow>
      metadata_value items n = Undefined)"
proof (intro impI conjI)
  assume a: "readable (opt_member callbackData ''Body'') \<and>
   opt_member (envelope_of callbackData) ''ResultCode'' = Num (Finite 0) \<and>
   callback_metadata (envelope_of callbackData) = Arr items \<and> list_all readable items"
  then have r: "readable (opt_member callbackData ''Body'')" by simp
  from a callback_successful [OF readable_Body [OF r], of items w]
  show "callback callbackData w =
     (acknowledgment,
      console_log (Log ''Payment successful:'' (Obj
        [(''amount'', metadata_value items ''Amount''),
         (''mpesaReceiptNumber'', metadata_value items ''MpesaReceiptNumber''),
         (''phoneNumber'', metadata_value items ''PhoneNumber''),
         (''transactionDate'', metadata_value items ''TransactionDate''),
         (''accountReference'', opt_member (envelope_of callbackData) ''MerchantRequestID'')]))
        (received callbackData w))" by simp
  show "metadata_value items n = Undefined"
    if "\<forall>item \<in> set items. opt_member item ''Name'' \<noteq> Str n"
  proof -
    from that have "find (\<lambda>item. opt_member item ''Name'' = Str n) items = None"
      by (simp add: find_None_iff)
    then show ?thesis by (simp add: metadata_value_def)
  qed
qed

theorem callback_payment_data_witness:
  "callback success_envelope accepting_world =
     (acknowledgment,
      console_log (Log ''Payment successful:'' (Obj
        [(''amount'', Num (Finite 500)),
         (''mpesaReceiptNumber'', Str ''ABC123''),
         (''phoneNumber'', Undefined),
         (''transactionDate'', Undefined),
         (''accountReference'', Str ''29115-34620561-1'')]))
        (received success_envelope accepting_world))"
  using callback_payment_data [of success_envelope success_items accepting_world "''PhoneNumber''"]
  by (simp add: success_envelope_facts success_items_values)

section \<open>The acknowledgment of a callback\<close>

text \<open>
  Claim C4, as the code has it. The answer is status 500 exactly when processing throws:
  when the body has no readable \<^verbatim>\<open>Body\<close> member, or when \<^verbatim>\<open>ResultCode\<close> is 0 and one
  of the four metadata lookups throws (the metadata is not a list, or an entry that is
  \<^verbatim>\<open>null\<close> comes before the first entry with the name looked up). Every other body is
  answered with status 200, whatever the payment outcome: every body of the expected
  envelope shape, and also every body with a readable \<^verbatim>\<open>Body\<close> whose \<^verbatim>\<open>ResultCode\<close>
  is not 0, whether or not it holds an envelope and whatever its metadata.
\<close>

theorem callback_acknowledgment:
  "fst (callback callbackData w) =
     (if \<not> readable (opt_member callbackData ''Body'') \<or>
         opt_member (envelope_of callbackData) ''ResultCode'' = Num (Finite 0) \<and>
         (\<exists>n \<in> set metadata_names. lookup_throws (callback_metadata (envelope_of callbackData)) n)
      then error_acknowledgment else acknowledgment) \<and>
   (status (fst (callback callbackData w)) = 500 \<longleftrightarrow>
      \<not> readable (opt_member callbackData ''Body'') \<or>
      opt_member (envelope_of callbackData) ''ResultCode'' = Num (Finite 0) \<and>
      (\<exists>n \<in> set metadata_names. lookup_throws (callback_metadata (envelope_of callbackData)) n)) \<and>
   (\<not> readable (opt_member callbackData ''Body'') \<longrightarrow>
      fst (callback callbackData w) = error_acknowledgment) \<and>
   (readable (opt_member callbackData ''Body'') \<and>
    opt_member (envelope_of callbackData) ''ResultCode'' \<noteq> Num (Finite 0) \<longrightarrow>
      fst (callback callbackData w) = acknowledgment) \<and>
   (readable (opt_member callbackData ''Body'') \<and>
    callback_metadata (envelope_of callbackData) = Arr items \<and> list_all readable items \<longrightarrow>
      fst (callback callbackData w) = acknowledgment) \<and>
   (envelope_shape callbackData \<longrightarrow> fst (callback callbackData w) = acknowledgment)"
proof -
  let ?throws = "\<not> readable (opt_member callbackData ''Body'') \<or>
      opt_member (envelope_of callbackData) ''ResultCode'' = Num (Finite 0) \<and>
      (\<exists>n \<in> set metadata_names. lookup_throws (callback_metadata (envelope_of callbackData)) n)"
  have exact: "fst (callback callbackData w) =
      (if ?throws then error_acknowledgment else acknowledgment)"
  proof (cases "readable (opt_member callbackData ''Body'')")
    case False
    with unreadable_Body [of callbackData w] show ?thesis by simp
  next
    case r: True
    show ?thesis
    proof (cases "opt_member (envelope_of callbackData) ''ResultCode'' = Num (Finite 0)")
      case True
      from callback_success_branch [OF r True, of w] r True show ?thesis by simp
    next
      case False
      from callback_failed [OF readable_Body [OF r] False, of w] r False show ?thesis by simp
    qed
  qed
  then have code: "status (fst (callback callbackData w)) = 500 \<longleftrightarrow> ?throws"
    by (simp add: acknowledgment_def error_acknowledgment_def)
  have ok: "fst (callback callbackData w) = acknowledgment"
    if r: "readable (opt_member callbackData ''Body'')"
      and m: "opt_member (envelope_of callbackData) ''ResultCode'' = Num (Finite 0) \<Longrightarrow>
        \<exists>items. callback_metadata (envelope_of callbackData) = Arr items \<and> list_all readable items"
  proof (cases "opt_member (envelope_of callbackData) ''ResultCode'' = Num (Finite 0)")
    case True
    with m obtain items' where
      "callback_metadata (envelope_of callbackData) = Arr items'" "list_all readable items'"
      by blast
    from callback_successful [OF readable_Body [OF r] True this, of w] show ?thesis by simp
  next
    case False
    from callback_failed [OF readable_Body [OF r] False, of w] show ?thesis by simp
  qed
  have rest: "(\<not> readable (opt_member callbackData ''Body'') \<longrightarrow>
      fst (callback callbackData w) = error_acknowledgment) \<and>
   (readable (opt_member callbackData ''Body'') \<and>
    opt_member (envelope_of callbackData) ''ResultCode'' \<noteq> Num (Finite 0) \<longrightarrow>
      fst (callback callbackData w) = acknowledgment) \<and>
   (readable (opt_member callbackData ''Body'') \<and>
    callback_metadata (envelope_of callbackData) = Arr items \<and> list_all readable items \<longrightarrow>
      fst (callback callbackData w) = acknowledgment) \<and>
   (envelope_shape callbackData \<longrightarrow> fst (callback callbackData w) = acknowledgment)"
    using unreadable_Body [of callbackData w] ok envelope_shape_readable [of callbackData]
    by blast
  from exact code rest show ?thesis by (intro conjI) simp_all
qed

lemma acknowledgment_examples:
  "\<not> readable Undefined" "envelope_shape success_envelope"
  by (simp_all add: readable_def envelope_shape_def envelope_of_def success_envelope_def
      success_items_def)

lemma null_item_success_facts:
  "readable (opt_member null_item_success ''Body'')"
  "opt_member (envelope_of null_item_success) ''ResultCode'' = Num (Finite 0)"
  "callback_metadata (envelope_of null_item_success) =
     Arr [Obj [(''Name'', Str ''Amount''), (''Value'', Num (Finite 500))], Null]"
  "\<not> lookup_throws (Arr [Obj [(''Name'', Str ''Amount''), (''Value'', Num (Finite 500))], Null])
      ''Amount''"
  "lookup_throws (Arr [Obj [(''Name'', Str ''Amount''), (''Value'', Num (Finite 500))], Null])
      ''MpesaReceiptNumber''"
  by (simp_all add: envelope_of_def null_item_success_def readable_def callback_metadata_def
      or_else_def)

lemma no_lookup_throws:
  "\<not> lookup_throws (Arr success_items) n"
  by (simp add: success_items_def readable_def)

theorem callback_acknowledgment_witness:
  "fst (callback (Obj []) accepting_world) = error_acknowledgment \<and>
   fst (callback cancelled_envelope accepting_world) = acknowledgment \<and>
   fst (callback success_envelope accepting_world) = acknowledgment \<and>
   fst (callback null_item_success accepting_world) = error_acknowledgment \<and>
   status (fst (callback null_item_success accepting_world)) = 500 \<and>
   status (fst (callback success_envelope accepting_world)) \<noteq> 500"
  using callback_acknowledgment [of "Obj []" accepting_world]
    callback_acknowledgment [of cancelled_envelope accepting_world]
    callback_acknowledgment [of success_envelope accepting_world success_items]
    callback_acknowledgment [of null_item_success accepting_world]
  by (simp add: acknowledgment_examples success_envelope_facts cancelled_envelope_facts
      null_item_success_facts no_lookup_throws metadata_names_def
      acknowledgment_def error_acknowledgment_def del: lookup_throws.simps)

text \<open>
  Claim C4 as stated fails: a body whose \<^verbatim>\<open>Body\<close> holds no envelope, and a cancelled
  payment whose metadata list holds \<^verbatim>\<open>null\<close>, do not have the expected envelope shape,
  and both are answered with status 200.
\<close>

theorem callback_acknowledgment_counterexample:
  "\<not> envelope_shape empty_Body \<and>
   fst (callback empty_Body accepting_world) = acknowledgment \<and>
   \<not> envelope_shape null_item_envelope \<and>
   fst (callback null_item_envelope accepting_world) = acknowledgment"
  by (simp add: envelope_shape_def envelope_of_def empty_Body_def null_item_envelope_def callback_def
      callback_try_def acknowledgment_def Let_def)

section \<open>Repeated delivery\<close>

text \<open>
  Claim C8, as the code has it. The handler keeps no payment state. The response to a
  callback and the console lines it prints do not depend on the world it runs in, so each
  delivery of an envelope is processed like the first one: after two deliveries the
  console holds the lines of the envelope twice.
\<close>

theorem callback_every_delivery:
  "fst (callback callbackData w') = fst (callback callbackData w) \<and>
   printed w' (snd (callback callbackData w')) = printed w (snd (callback callbackData w)) \<and>
   snd (callback callbackData w) =
     w\<lparr>console := console w @ printed w (snd (callback callbackData w))\<rparr> \<and>
   snd (callback callbackData (snd (callback callbackData w))) =
     w\<lparr>console := console w @ printed w (snd (callback callbackData w)) @
       printed w (snd (callback callbackData w))\<rparr>"
proof -
  define res where "res = fst (callback callbackData w)"
  define entries where "entries = printed w (snd (callback callbackData w))"
  have 1: "callback callbackData v = (res, v\<lparr>console := console v @ entries\<rparr>)" for v
    unfolding res_def entries_def by (rule callback_stateless)
  have 2: "printed v (v\<lparr>console := console v @ entries\<rparr>) = entries" for v
    by (simp add: printed_def)
  have "fst (callback callbackData w') = res"
    and "printed w' (snd (callback callbackData w')) = entries"
    and "snd (callback callbackData w) = w\<lparr>console := console w @ entries\<rparr>"
    and "snd (callback callbackData (snd (callback callbackData w))) =
      w\<lparr>console := console w @ entries @ entries\<rparr>"
    by (simp_all add: 1 2)
  then show ?thesis
    unfolding res_def entries_def by blast
qed

text \<open>
  Claim C8 as stated fails: the second delivery of a paid callback is not a no-op, it
  reports the payment as successful a second time.
\<close>

theorem callback_twice_counterexample:
  "console (snd (callback success_envelope accepting_world)) =
     [Log ''Mpesa Callback Received:'' success_envelope,
      Log ''Payment successful:'' (Obj
        [(''amount'', Num (Finite 500)),
         (''mpesaReceiptNumber'', Str ''ABC123''),
         (''phoneNumber'', Undefined),
         (''transactionDate'', Undefined),
         (''accountReference'', Str ''29115-34620561-1'')])] \<and>
   console (snd (callback success_envelope (snd (callback success_envelope accepting_world)))) =
     [Log ''Mpesa Callback Received:'' success_envelope,
      Log ''Payment successful:'' (Obj
        [(''amount'', Num (Finite 500)),
         (''mpesaReceiptNumber'', Str ''ABC123''),
         (''phoneNumber'', Undefined),
         (''transactionDate'', Undefined),
         (''accountReference'', Str ''29115-34620561-1'')]),
      Log ''Mpesa Callback Received:'' success_envelope,
      Log ''Payment successful:'' (Obj
        [(''amount'', Num (Finite 500)),
         (''mpesaReceiptNumber'', Str ''ABC123''),
         (''phoneNumber'', Undefined),
         (''transactionDate'', Undefined),
         (''accountReference'', Str ''29115-34620561-1'')])]"
  by code_simp

end
